theory Spec2Isabelle
  imports Complex_Main
begin

section \<open>Arrays and errors\<close>

text \<open>
  The module \<^verbatim>\<open>parsimony/functions/taylor.py\<close> works on numpy arrays of floats. The
  entries are reals (the arithmetic is idealised: no rounding, no infinities). A \<open>vec\<close>
  is the list of the entries of a p-by-1 column, the shape on which the routines that
  write \<^verbatim>\<open>.T\<close> and \<^verbatim>\<open>[0, 0]\<close> work; arrays that carry their shape come further down, for
  the one routine that calls \<^verbatim>\<open>np.dot\<close> without them. Every Python exception is a value
  of \<open>error\<close>.
\<close>

type_synonym vec = "real list"

datatype error = RuntimeError | TypeError | ValueError | AttributeError | IndexError

text \<open>
  \<^verbatim>\<open>x - a\<close> on two arrays: entry by entry when the lengths agree, the array of length
  one is broadcast otherwise, and any other pair of lengths is numpy's \<^verbatim>\<open>ValueError\<close>.
\<close>

definition np_sub :: "vec \<Rightarrow> vec \<Rightarrow> error + vec" where
  "np_sub x a =
     (if length x = length a then Inr (map2 (-) x a)
      else if length a = 1 then Inr (map (\<lambda>v. v - hd a) x)
      else if length x = 1 then Inr (map (\<lambda>v. hd x - v) a)
      else Inl ValueError)"

text \<open>
  \<^verbatim>\<open>np.dot(g, d)\<close> of two one-dimensional arrays, which is also
  \<^verbatim>\<open>np.dot(g.T, d)[0, 0]\<close> of two p-by-1 columns: the inner product, and
  \<^verbatim>\<open>ValueError\<close> (shapes not aligned) when the lengths differ.
\<close>

definition np_dot :: "vec \<Rightarrow> vec \<Rightarrow> error + real" where
  "np_dot g d =
     (if length g = length d then Inr (sum_list (map2 (*) g d)) else Inl ValueError)"

text \<open>
  \<^verbatim>\<open>collect\<close> runs a computation over the entries of a list and stops at the first
  exception.
\<close>

fun collect :: "('a \<Rightarrow> error + 'b) \<Rightarrow> 'a list \<Rightarrow> error + 'b list" where
  "collect g [] = Inr []"
| "collect g (x # xs) =
     (case g x of
        Inl e \<Rightarrow> Inl e
      | Inr y \<Rightarrow> (case collect g xs of Inl e \<Rightarrow> Inl e | Inr ys \<Rightarrow> Inr (y # ys)))"


section \<open>Arrays with their shape\<close>

text \<open>
  \<^verbatim>\<open>FirstOrderTaylorApproximation.f\<close> applies \<^verbatim>\<open>np.dot\<close> to its arrays as they come, with
  no transpose, so what it returns depends on their shape. An array is one-dimensional
  (\<open>A1\<close>, shape \<open>(n,)\<close>) or two-dimensional (\<open>A2\<close>, the list of its rows, all of one
  length); the p-by-1 column of the docstrings is \<open>A2 [[c\<^sub>1], \<dots>, [c\<^sub>p]]\<close>.
\<close>

datatype ndarray = A1 vec | A2 "vec list"

fun entries :: "ndarray \<Rightarrow> real list" where
  "entries (A1 v) = v"
| "entries (A2 rows) = concat rows"

fun amap :: "(real \<Rightarrow> real) \<Rightarrow> ndarray \<Rightarrow> ndarray" where
  "amap g (A1 v) = A1 (map g v)"
| "amap g (A2 rows) = A2 (map (map g) rows)"

text \<open>
  Subtraction of two lists of rows: row by row when the numbers of rows agree, the single
  row is broadcast otherwise, and within a pair of rows \<^verbatim>\<open>np_sub\<close> broadcasts along the
  columns.
\<close>

definition rows_sub :: "vec list \<Rightarrow> vec list \<Rightarrow> error + vec list" where
  "rows_sub xs as =
     (if length xs = length as then collect (\<lambda>(x, a). np_sub x a) (zip xs as)
      else if length as = 1 then collect (\<lambda>x. np_sub x (hd as)) xs
      else if length xs = 1 then collect (\<lambda>a. np_sub (hd xs) a) as
      else Inl ValueError)"

text \<open>
  \<^verbatim>\<open>x - a\<close> on arrays. A one-dimensional array meets a two-dimensional one as a single
  row, and the result is two-dimensional.
\<close>

fun nd_sub :: "ndarray \<Rightarrow> ndarray \<Rightarrow> error + ndarray" where
  "nd_sub (A1 x) (A1 a) = (case np_sub x a of Inl e \<Rightarrow> Inl e | Inr d \<Rightarrow> Inr (A1 d))"
| "nd_sub (A2 xs) (A2 as) = (case rows_sub xs as of Inl e \<Rightarrow> Inl e | Inr ds \<Rightarrow> Inr (A2 ds))"
| "nd_sub (A1 x) (A2 as) = (case rows_sub [x] as of Inl e \<Rightarrow> Inl e | Inr ds \<Rightarrow> Inr (A2 ds))"
| "nd_sub (A2 xs) (A1 a) = (case rows_sub xs [a] of Inl e \<Rightarrow> Inl e | Inr ds \<Rightarrow> Inr (A2 ds))"

text \<open>The columns of a list of rows.\<close>

fun cols :: "vec list \<Rightarrow> vec list" where
  "cols [] = []"
| "cols (r # rs) = map (\<lambda>j. map (\<lambda>row. row ! j) (r # rs)) [0 ..< length r]"

text \<open>
  What \<^verbatim>\<open>np.dot\<close> returns: a number for two one-dimensional arrays, an array otherwise.
\<close>

datatype np_value = Number real | Array ndarray

text \<open>
  \<^verbatim>\<open>np.dot(g, d)\<close>: the inner product of two one-dimensional arrays, the matrix product
  of two two-dimensional ones, and the product of a vector with a matrix or of a matrix
  with a vector. The last axis of \<open>g\<close> must be as long as the first axis of \<open>d\<close>
  (the second to last of a two-dimensional \<open>d\<close>); otherwise the shapes are not aligned
  and numpy raises a \<^verbatim>\<open>ValueError\<close>. So the product of a p-by-1 column with a p-by-1
  column exists only for \<open>p = 1\<close>.
\<close>

fun nd_dot :: "ndarray \<Rightarrow> ndarray \<Rightarrow> error + np_value" where
  "nd_dot (A1 g) (A1 d) = (case np_dot g d of Inl e \<Rightarrow> Inl e | Inr s \<Rightarrow> Inr (Number s))"
| "nd_dot (A2 gs) (A2 ds) =
     (if map length gs = replicate (length gs) (length ds)
      then (case collect (\<lambda>g. collect (np_dot g) (cols ds)) gs of
              Inl e \<Rightarrow> Inl e
            | Inr rows \<Rightarrow> Inr (Array (A2 rows)))
      else Inl ValueError)"
| "nd_dot (A1 g) (A2 ds) =
     (if length g = length ds
      then (case collect (np_dot g) (cols ds) of
              Inl e \<Rightarrow> Inl e
            | Inr row \<Rightarrow> Inr (Array (A1 row)))
      else Inl ValueError)"
| "nd_dot (A2 gs) (A1 d) =
     (case collect (\<lambda>g. np_dot g d) gs of
        Inl e \<Rightarrow> Inl e
      | Inr col \<Rightarrow> Inr (Array (A1 col)))"

text \<open>\<^verbatim>\<open>v + r\<close> for a number \<open>v\<close> and a result of \<^verbatim>\<open>np.dot\<close>.\<close>

fun add_number :: "real \<Rightarrow> np_value \<Rightarrow> np_value" where
  "add_number v (Number s) = Number (v + s)"
| "add_number v (Array a) = Array (amap (\<lambda>s. v + s) a)"



section \<open>The wrapped function: a call-counting collaborator\<close>

text \<open>
  The object behind \<^verbatim>\<open>self.function\<close> is not part of the module. It is taken as a pair of
  pure functions \<open>uf\<close> (its \<^verbatim>\<open>f\<close>) and \<open>ugrad\<close> (its \<^verbatim>\<open>grad\<close>), together with three
  counters that record how often \<^verbatim>\<open>f\<close>, \<^verbatim>\<open>grad\<close> and \<^verbatim>\<open>reset\<close> were invoked on it.
\<close>

record ufun =
  uf :: "ndarray \<Rightarrow> real"
  ugrad :: "ndarray \<Rightarrow> ndarray"
  f_calls :: nat
  grad_calls :: nat
  reset_calls :: nat

definition call_f :: "ufun \<Rightarrow> ndarray \<Rightarrow> real \<times> ufun" where
  "call_f u p = (uf u p, u\<lparr>f_calls := f_calls u + 1\<rparr>)"

definition call_grad :: "ufun \<Rightarrow> ndarray \<Rightarrow> ndarray \<times> ufun" where
  "call_grad u p = (ugrad u p, u\<lparr>grad_calls := grad_calls u + 1\<rparr>)"

definition call_reset :: "ufun \<Rightarrow> ufun" where
  "call_reset u = u\<lparr>reset_calls := reset_calls u + 1\<rparr>"


section \<open>FirstOrderTaylorApproximation\<close>

text \<open>
  The instance attributes of a \<^verbatim>\<open>FirstOrderTaylorApproximation\<close>. \<open>func\<close> is
  \<^verbatim>\<open>self.function\<close> (\<open>None\<close> is Python's \<^verbatim>\<open>None\<close>), and a cache holding \<open>None\<close> is a
  cache holding \<^verbatim>\<open>None\<close>. Every method takes the object and returns it updated.
\<close>

record taylor =
  func :: "ufun option"
  point :: ndarray
  f_at_point :: "real option"
  grad_at_point :: "ndarray option"

text \<open>\<^verbatim>\<open>BaseTaylor.reset\<close>\<close>

definition BaseTaylor_reset :: "taylor \<Rightarrow> taylor" where
  "BaseTaylor_reset self =
     (let self = (case func self of
                    None \<Rightarrow> self
                  | Some u \<Rightarrow> self\<lparr>func := Some (call_reset u)\<rparr>)
      in self\<lparr>f_at_point := None\<rparr>)"

text \<open>\<^verbatim>\<open>FirstOrderTaylorApproximation.reset\<close>\<close>

definition reset :: "taylor \<Rightarrow> taylor" where
  "reset self = (BaseTaylor_reset self)\<lparr>grad_at_point := None\<rparr>"

text \<open>\<^verbatim>\<open>BaseTaylor.at_point\<close>; \<^verbatim>\<open>self.reset()\<close> dispatches to the subclass.\<close>

definition at_point :: "taylor \<Rightarrow> ndarray \<Rightarrow> taylor" where
  "at_point self p = reset (self\<lparr>point := p\<rparr>)"

text \<open>
  \<^verbatim>\<open>FirstOrderTaylorApproximation.__init__\<close>: \<^verbatim>\<open>BaseTaylor.__init__\<close> stores the function
  and calls \<^verbatim>\<open>at_point\<close>, then \<^verbatim>\<open>reset\<close> runs once more.
\<close>

definition init :: "ufun option \<Rightarrow> ndarray \<Rightarrow> taylor" where
  "init function p =
     reset (at_point \<lparr>func = function, point = p, f_at_point = None, grad_at_point = None\<rparr> p)"

text \<open>
  \<^verbatim>\<open>BaseTaylor._precompute\<close>. \<^verbatim>\<open>self.function.f\<close> on \<^verbatim>\<open>None\<close> is an
  \<^verbatim>\<open>AttributeError\<close>; the object is returned as the exception leaves it.
\<close>

definition BaseTaylor_precompute :: "taylor \<Rightarrow> taylor \<times> error option" where
  "BaseTaylor_precompute self =
     (if f_at_point self = None then
        (case func self of
           None \<Rightarrow> (self, Some AttributeError)
         | Some u \<Rightarrow>
             (let (v, u') = call_f u (point self)
              in (self\<lparr>func := Some u', f_at_point := Some v\<rparr>, None)))
      else (self, None))"

text \<open>\<^verbatim>\<open>FirstOrderTaylorApproximation._precompute\<close>\<close>

definition precompute :: "taylor \<Rightarrow> taylor \<times> error option" where
  "precompute self =
     (case BaseTaylor_precompute self of
        (self, Some e) \<Rightarrow> (self, Some e)
      | (self, None) \<Rightarrow>
          (if grad_at_point self = None then
             (case func self of
                None \<Rightarrow> (self, Some AttributeError)
              | Some u \<Rightarrow>
                  (let (g, u') = call_grad u (point self)
                   in (self\<lparr>func := Some u', grad_at_point := Some g\<rparr>, None)))
           else (self, None)))"

text \<open>
  \<^verbatim>\<open>FirstOrderTaylorApproximation.f\<close>:
  \<^verbatim>\<open>self.f_at_point + np.dot(self.grad_at_point, w - self.point)\<close>, on arrays of whatever
  shape the caller and the wrapped function use. The result is a number when the arrays
  are one-dimensional and an array when they are not.
\<close>

definition f :: "taylor \<Rightarrow> ndarray \<Rightarrow> taylor \<times> (error + np_value)" where
  "f self w =
     (case precompute self of
        (self, Some e) \<Rightarrow> (self, Inl e)
      | (self, None) \<Rightarrow>
          (case (f_at_point self, grad_at_point self) of
             (Some v, Some g) \<Rightarrow>
               (case nd_sub w (point self) of
                  Inl e \<Rightarrow> (self, Inl e)
                | Inr d \<Rightarrow>
                    (case nd_dot g d of
                       Inl e \<Rightarrow> (self, Inl e)
                     | Inr r \<Rightarrow> (self, Inr (add_number v r))))
           | _ \<Rightarrow> (self, Inl TypeError)))"

text \<open>\<^verbatim>\<open>FirstOrderTaylorApproximation.grad\<close>\<close>

definition grad :: "taylor \<Rightarrow> ndarray \<Rightarrow> taylor \<times> (error + ndarray)" where
  "grad self w =
     (case precompute self of
        (self, Some e) \<Rightarrow> (self, Inl e)
      | (self, None) \<Rightarrow>
          (case grad_at_point self of
             Some g \<Rightarrow> (self, Inr g)
           | None \<Rightarrow> (self, Inl TypeError)))"

text \<open>
  A caller's sequence of \<^verbatim>\<open>f\<close> and \<^verbatim>\<open>grad\<close> calls on one object, with no
  \<^verbatim>\<open>at_point\<close> in between. A call that raises leaves the object as it is at the raise,
  and the caller goes on.
\<close>

datatype call = Value ndarray | Gradient ndarray

fun run :: "call list \<Rightarrow> taylor \<Rightarrow> taylor" where
  "run [] self = self"
| "run (Value w # cs) self = run cs (fst (f self w))"
| "run (Gradient w # cs) self = run cs (fst (grad self w))"

definition f_count :: "taylor \<Rightarrow> nat" where
  "f_count self = (case func self of None \<Rightarrow> 0 | Some u \<Rightarrow> f_calls u)"

definition grad_count :: "taylor \<Rightarrow> nat" where
  "grad_count self = (case func self of None \<Rightarrow> 0 | Some u \<Rightarrow> grad_calls u)"


section \<open>MultiblockFirstOrderTaylorApproximation\<close>

text \<open>
  An entry of the \<^verbatim>\<open>indices\<close> argument is a Python number: an \<^verbatim>\<open>int\<close> or a
  \<^verbatim>\<open>float\<close>. \<^verbatim>\<open>int(x)\<close> truncates a float towards zero.
\<close>

datatype pynum = PyInt int | PyFloat real

fun py_int :: "pynum \<Rightarrow> int" where
  "py_int (PyInt i) = i"
| "py_int (PyFloat r) = (if 0 \<le> r then \<lfloor>r\<rfloor> else \<lceil>r\<rceil>)"

text \<open>
  \<^verbatim>\<open>xs[k]\<close> on a Python list: a float subscript is a \<^verbatim>\<open>TypeError\<close>, a negative
  integer counts from the end, and a subscript out of range is an \<^verbatim>\<open>IndexError\<close>.
\<close>

definition py_index_int :: "'a list \<Rightarrow> int \<Rightarrow> error + 'a" where
  "py_index_int xs i =
     (if 0 \<le> i \<and> i < int (length xs) then Inr (xs ! nat i)
      else if - int (length xs) \<le> i \<and> i < 0 then Inr (xs ! nat (int (length xs) + i))
      else Inl IndexError)"

fun py_index :: "'a list \<Rightarrow> pynum \<Rightarrow> error + 'a" where
  "py_index xs (PyInt i) = py_index_int xs i"
| "py_index xs (PyFloat r) = Inl TypeError"

text \<open>
  The wrapped multiblock function, again outside the module: \<open>mb_uf\<close> is its \<^verbatim>\<open>f\<close> on a
  list of blocks and \<open>mb_ugrad\<close> its \<^verbatim>\<open>grad(blocks, index)\<close>. Its \<^verbatim>\<open>reset\<close> has no effect
  that this class observes.
\<close>

record mb_ufun =
  mb_uf :: "vec list \<Rightarrow> real"
  mb_ugrad :: "vec list \<Rightarrow> nat \<Rightarrow> vec"

text \<open>
  The instance attributes. \<^verbatim>\<open>grad_at_point\<close> is \<^verbatim>\<open>None\<close> or a list with one entry
  per index; an entry \<open>None\<close> is the integer \<^verbatim>\<open>0\<close> that \<^verbatim>\<open>[0] * len(self.indices)\<close>
  puts there before the loop stores the gradient.
\<close>

record mb_taylor =
  mb_func :: "mb_ufun option"
  mb_point :: "vec list"
  indices :: "pynum list"
  mb_f_at_point :: "real option"
  mb_grad_at_point :: "vec option list option"

text \<open>\<^verbatim>\<open>MultiblockBaseTaylor.reset\<close> and \<^verbatim>\<open>MultiblockFirstOrderTaylorApproximation.reset\<close>\<close>

definition MultiblockBaseTaylor_reset :: "mb_taylor \<Rightarrow> mb_taylor" where
  "MultiblockBaseTaylor_reset self = self\<lparr>mb_f_at_point := None\<rparr>"

definition mb_reset :: "mb_taylor \<Rightarrow> mb_taylor" where
  "mb_reset self = (MultiblockBaseTaylor_reset self)\<lparr>mb_grad_at_point := None\<rparr>"

text \<open>\<^verbatim>\<open>MultiblockBaseTaylor.at_point\<close>\<close>

definition mb_at_point :: "mb_taylor \<Rightarrow> vec list \<Rightarrow> mb_taylor" where
  "mb_at_point self p = mb_reset (self\<lparr>mb_point := p\<rparr>)"

text \<open>
  The loop of \<^verbatim>\<open>MultiblockBaseTaylor.__init__\<close> over the caller's list:
  \<^verbatim>\<open>for i in range(len(indices)): indices[i] = int(indices[i])\<close>.
\<close>

fun coerce_loop :: "nat list \<Rightarrow> pynum list \<Rightarrow> pynum list" where
  "coerce_loop [] ixs = ixs"
| "coerce_loop (i # is) ixs = coerce_loop is (ixs[i := PyInt (py_int (ixs ! i))])"

text \<open>
  \<^verbatim>\<open>MultiblockFirstOrderTaylorApproximation.__init__\<close>, through
  \<^verbatim>\<open>MultiblockBaseTaylor.__init__\<close>: the function is stored, \<^verbatim>\<open>at_point\<close> runs,
  \<^verbatim>\<open>self.indices = list(indices)\<close> takes a copy, the loop then writes into the caller's
  list, and \<^verbatim>\<open>reset\<close> runs once more. The result is the new object together with the
  caller's list as the constructor leaves it.
\<close>

definition mb_init :: "mb_ufun option \<Rightarrow> vec list \<Rightarrow> pynum list \<Rightarrow> mb_taylor \<times> pynum list" where
  "mb_init function p ixs =
     (let self = mb_at_point \<lparr>mb_func = function, mb_point = p, indices = [],
                             mb_f_at_point = None, mb_grad_at_point = None\<rparr> p;
          self = self\<lparr>indices := ixs\<rparr>;
          ixs' = coerce_loop [0 ..< length ixs] ixs
      in (mb_reset self, ixs'))"

text \<open>
  The argument \<^verbatim>\<open>[self.point[self.indices[0]], self.point[self.indices[1]]]\<close> of the
  calls to the wrapped function, evaluated left to right.
\<close>

definition selected_blocks :: "mb_taylor \<Rightarrow> error + vec list" where
  "selected_blocks self =
     (case py_index_int (indices self) 0 of
        Inl e \<Rightarrow> Inl e
      | Inr i0 \<Rightarrow>
          (case py_index (mb_point self) i0 of
             Inl e \<Rightarrow> Inl e
           | Inr p0 \<Rightarrow>
               (case py_index_int (indices self) 1 of
                  Inl e \<Rightarrow> Inl e
                | Inr i1 \<Rightarrow>
                    (case py_index (mb_point self) i1 of
                       Inl e \<Rightarrow> Inl e
                     | Inr p1 \<Rightarrow> Inr [p0, p1]))))"

text \<open>\<^verbatim>\<open>MultiblockBaseTaylor._precompute\<close>\<close>

definition MultiblockBaseTaylor_precompute :: "mb_taylor \<Rightarrow> mb_taylor \<times> error option" where
  "MultiblockBaseTaylor_precompute self =
     (if mb_f_at_point self = None then
        (case mb_func self of
           None \<Rightarrow> (self, Some AttributeError)
         | Some u \<Rightarrow>
             (case selected_blocks self of
                Inl e \<Rightarrow> (self, Some e)
              | Inr bs \<Rightarrow> (self\<lparr>mb_f_at_point := Some (mb_uf u bs)\<rparr>, None)))
      else (self, None))"

text \<open>
  The loop of \<^verbatim>\<open>MultiblockFirstOrderTaylorApproximation._precompute\<close> that fills
  \<^verbatim>\<open>self.grad_at_point[i]\<close>; \<open>gs\<close> is the list as filled so far, and an exception leaves
  it in the object as it is.
\<close>

fun grad_loop :: "nat list \<Rightarrow> mb_taylor \<Rightarrow> vec option list \<Rightarrow> vec option list \<times> error option" where
  "grad_loop [] self gs = (gs, None)"
| "grad_loop (i # is) self gs =
     (case mb_func self of
        None \<Rightarrow> (gs, Some AttributeError)
      | Some u \<Rightarrow>
          (case selected_blocks self of
             Inl e \<Rightarrow> (gs, Some e)
           | Inr bs \<Rightarrow> grad_loop is self (gs[i := Some (mb_ugrad u bs i)])))"

text \<open>\<^verbatim>\<open>MultiblockFirstOrderTaylorApproximation._precompute\<close>\<close>

definition mb_precompute :: "mb_taylor \<Rightarrow> mb_taylor \<times> error option" where
  "mb_precompute self =
     (case MultiblockBaseTaylor_precompute self of
        (self, Some e) \<Rightarrow> (self, Some e)
      | (self, None) \<Rightarrow>
          (if mb_grad_at_point self = None then
             (let (gs, r) = grad_loop [0 ..< length (indices self)] self
                              (replicate (length (indices self)) None)
              in (self\<lparr>mb_grad_at_point := Some gs\<rparr>, r))
           else (self, None)))"

text \<open>
  One pass of the loop of \<^verbatim>\<open>MultiblockFirstOrderTaylorApproximation.f\<close>:
  \<^verbatim>\<open>f = f + np.dot(self.grad_at_point[i].T, w[i] - self.point[self.indices[i]])[0, 0]\<close>,
  on p-by-1 columns. The placeholder \<^verbatim>\<open>0\<close> has no attribute \<^verbatim>\<open>T\<close>.
\<close>

fun f_loop :: "nat list \<Rightarrow> mb_taylor \<Rightarrow> vec option list \<Rightarrow> vec list \<Rightarrow> real \<Rightarrow> error + real" where
  "f_loop [] self gs w acc = Inr acc"
| "f_loop (i # is) self gs w acc =
     (case py_index_int gs (int i) of
        Inl e \<Rightarrow> Inl e
      | Inr None \<Rightarrow> Inl AttributeError
      | Inr (Some g) \<Rightarrow>
          (case py_index_int w (int i) of
             Inl e \<Rightarrow> Inl e
           | Inr wi \<Rightarrow>
               (case py_index_int (indices self) (int i) of
                  Inl e \<Rightarrow> Inl e
                | Inr k \<Rightarrow>
                    (case py_index (mb_point self) k of
                       Inl e \<Rightarrow> Inl e
                     | Inr a \<Rightarrow>
                         (case np_sub wi a of
                            Inl e \<Rightarrow> Inl e
                          | Inr d \<Rightarrow>
                              (case np_dot g d of
                                 Inl e \<Rightarrow> Inl e
                               | Inr s \<Rightarrow> f_loop is self gs w (acc + s)))))))"

text \<open>\<^verbatim>\<open>MultiblockFirstOrderTaylorApproximation.f\<close>\<close>

definition mb_f :: "mb_taylor \<Rightarrow> vec list \<Rightarrow> mb_taylor \<times> (error + real)" where
  "mb_f self w =
     (case mb_precompute self of
        (self, Some e) \<Rightarrow> (self, Inl e)
      | (self, None) \<Rightarrow>
          (case (mb_f_at_point self, mb_grad_at_point self) of
             (Some v, Some gs) \<Rightarrow> (self, f_loop [0 ..< length (indices self)] self gs w v)
           | _ \<Rightarrow> (self, Inl TypeError)))"

text \<open>
  \<^verbatim>\<open>MultiblockFirstOrderTaylorApproximation.grad\<close>: the entry \<^verbatim>\<open>index\<close> of the cached
  list; \<open>None\<close> in the result is the placeholder \<^verbatim>\<open>0\<close>.
\<close>

definition mb_grad :: "mb_taylor \<Rightarrow> vec list \<Rightarrow> int \<Rightarrow> mb_taylor \<times> (error + vec option)" where
  "mb_grad self w index =
     (case mb_precompute self of
        (self, Some e) \<Rightarrow> (self, Inl e)
      | (self, None) \<Rightarrow>
          (case mb_grad_at_point self of
             Some gs \<Rightarrow> (self, py_index_int gs index)
           | None \<Rightarrow> (self, Inl TypeError)))"


section \<open>FirstOrderTaylorWrapper\<close>

text \<open>
  The engine receives objects of classes that live outside the module, copies them and
  writes attributes into the copy. Objects are therefore kept in a store, a list of
  objects addressed by position, and every routine takes the store and returns it
  updated together with its result or the exception it raises.

  A point, or an argument of \<^verbatim>\<open>f\<close>, is a numpy array (a p-by-1 column, \<open>Arr\<close>) or a
  Python list of such arrays (\<open>Blocks\<close>, one per block).
\<close>

type_synonym addr = nat

datatype pt = Arr vec | Blocks "vec list"

text \<open>
  The class of an object, as the \<^verbatim>\<open>isinstance\<close> tests of \<^verbatim>\<open>__call__\<close> see it, in the
  order of the tests. A \<^verbatim>\<open>CombinedFunction\<close> carries its three flat lists \<^verbatim>\<open>_f\<close>,
  \<^verbatim>\<open>_d\<close>, \<^verbatim>\<open>_N\<close> of sub-functions, a \<^verbatim>\<open>CombinedMultiblockFunction\<close> the nested lists
  \<^verbatim>\<open>_f[i][j][k]\<close>, \<^verbatim>\<open>_d[i][k]\<close>, \<^verbatim>\<open>_N[i][k]\<close>; the entries are references.
\<close>

datatype kind =
    PlainFunction
  | MultiblockFunction
  | CombinedFunction "addr list" "addr list" "addr list"
  | CombinedMultiblockFunction "addr list list list" "addr list list" "addr list list"

text \<open>
  \<^verbatim>\<open>_taylor_grad_f_at_point\<close> holds one gradient after \<^verbatim>\<open>_wrap\<close> and a list of
  gradients after \<^verbatim>\<open>_mb_wrap\<close>. The attribute \<^verbatim>\<open>f\<close> (or \<^verbatim>\<open>grad\<close>) of an object is its
  class's method, or the closure that \<^verbatim>\<open>_wrap\<close> or \<^verbatim>\<open>_mb_wrap\<close> bound in its place.
\<close>

datatype cached_grad = Single vec | PerBlock "vec list"

datatype binding = Original | WrapNew | MbWrapNew

text \<open>
  An object. \<open>orig_f\<close> and \<open>orig_grad\<close> are the methods \<^verbatim>\<open>f\<close> and \<^verbatim>\<open>grad\<close> of its class,
  \<open>smooth_f\<close> is \<^verbatim>\<open>_f\<close> called on a point, \<open>smooth_grad_f\<close> is \<^verbatim>\<open>_grad_f(point)\<close>,
  \<open>block_grad_f\<close> is \<^verbatim>\<open>_grad_f(point, i)\<close>, \<open>non_f\<close> is \<^verbatim>\<open>_non_f\<close> and \<open>grad_non_f\<close> is
  \<^verbatim>\<open>_grad_non_f(x)\<close>: the collaborators' contract, taken as pure functions. The three
  \<open>taylor_\<close> fields are the marker attributes, \<open>None\<close> when the object has no such
  attribute. \<open>at_point_attr\<close> tells whether \<^verbatim>\<open>__call__\<close> bound its \<^verbatim>\<open>new_at_point\<close>.
\<close>

record obj =
  kind :: kind
  is_BaseTaylor :: bool
  orig_f :: "pt \<Rightarrow> real"
  orig_grad :: "pt \<Rightarrow> vec"
  smooth_f :: "pt \<Rightarrow> real"
  smooth_grad_f :: "pt \<Rightarrow> vec"
  block_grad_f :: "pt \<Rightarrow> nat \<Rightarrow> vec"
  non_f :: "pt \<Rightarrow> real"
  grad_non_f :: "pt \<Rightarrow> vec"
  taylor_point :: "pt option"
  taylor_f_at_point :: "real option"
  taylor_grad_f_at_point :: "cached_grad option"
  f_attr :: binding
  grad_attr :: binding
  at_point_attr :: bool

type_synonym store = "obj list"

fun is_CombinedFunction :: "obj \<Rightarrow> bool" where
  "is_CombinedFunction ob = (case kind ob of CombinedFunction F D N \<Rightarrow> True | _ \<Rightarrow> False)"

subsection \<open>numpy on points\<close>

definition homogeneous :: "vec list \<Rightarrow> bool" where
  "homogeneous bs = (map length bs = replicate (length bs) (length (hd bs)))"

text \<open>
  \<^verbatim>\<open>x - a\<close>. numpy turns a list of equally shaped columns into one array and subtracts
  block by block; a list of columns of different lengths is a \<^verbatim>\<open>ValueError\<close>, and
  Python has no subtraction of a list from a list.
\<close>

fun pt_sub :: "pt \<Rightarrow> pt \<Rightarrow> error + pt" where
  "pt_sub (Arr x) (Arr a) = (case np_sub x a of Inl e \<Rightarrow> Inl e | Inr d \<Rightarrow> Inr (Arr d))"
| "pt_sub (Blocks xs) (Arr a) =
     (if homogeneous xs
      then (case collect (\<lambda>x. np_sub x a) xs of Inl e \<Rightarrow> Inl e | Inr ds \<Rightarrow> Inr (Blocks ds))
      else Inl ValueError)"
| "pt_sub (Arr x) (Blocks as) =
     (if homogeneous as
      then (case collect (\<lambda>a. np_sub x a) as of Inl e \<Rightarrow> Inl e | Inr ds \<Rightarrow> Inr (Blocks ds))
      else Inl ValueError)"
| "pt_sub (Blocks xs) (Blocks as) = Inl TypeError"

text \<open>
  \<^verbatim>\<open>np.dot(g.T, d)\<close>: a 1-by-1 matrix for a column \<open>d\<close>, and one entry per block for a
  stack of columns. The result is the list of its entries.
\<close>

fun dot_T :: "vec \<Rightarrow> pt \<Rightarrow> error + real list" where
  "dot_T g (Arr d) = (case np_dot g d of Inl e \<Rightarrow> Inl e | Inr s \<Rightarrow> Inr [s])"
| "dot_T g (Blocks ds) = collect (np_dot g) ds"

text \<open>\<^verbatim>\<open>len(point)\<close> and \<^verbatim>\<open>point[i]\<close> for \<open>i\<close> in \<^verbatim>\<open>range(len(point))\<close>; row \<open>i\<close> of a column is an array of length one.\<close>

fun pt_len :: "pt \<Rightarrow> nat" where
  "pt_len (Arr v) = length v"
| "pt_len (Blocks bs) = length bs"

fun pt_nth :: "pt \<Rightarrow> nat \<Rightarrow> vec" where
  "pt_nth (Arr v) i = [v ! i]"
| "pt_nth (Blocks bs) i = bs ! i"

text \<open>
  \<^verbatim>\<open>val[0, 0]\<close>: the first entry. Where the result is the one-entry array that numpy
  returns for a stack of columns, it is identified with that entry.
\<close>

fun first_entry :: "real list \<Rightarrow> error + real" where
  "first_entry [] = Inl IndexError"
| "first_entry (s # ss) = Inr s"

subsection \<open>The closures bound by the wrap routines\<close>

text \<open>
  \<^verbatim>\<open>new_f\<close> of \<^verbatim>\<open>_wrap\<close>. Reading a marker attribute that the object does not have is
  an \<^verbatim>\<open>AttributeError\<close>, and so is \<^verbatim>\<open>.T\<close> on a list of gradients.
\<close>

definition new_f :: "obj \<Rightarrow> pt \<Rightarrow> error + real" where
  "new_f self x =
     (case taylor_f_at_point self of
        None \<Rightarrow> Inl AttributeError
      | Some v \<Rightarrow>
          (case taylor_grad_f_at_point self of
             None \<Rightarrow> Inl AttributeError
           | Some (PerBlock gs) \<Rightarrow> Inl AttributeError
           | Some (Single g) \<Rightarrow>
               (case taylor_point self of
                  None \<Rightarrow> Inl AttributeError
                | Some a \<Rightarrow>
                    (case pt_sub x a of
                       Inl e \<Rightarrow> Inl e
                     | Inr d \<Rightarrow>
                         (case dot_T g d of
                            Inl e \<Rightarrow> Inl e
                          | Inr ss \<Rightarrow>
                              (let val = map (\<lambda>s. v + s) ss;
                                   val = (if is_CombinedFunction self
                                          then map (\<lambda>s. s + non_f self x) val else val)
                               in first_entry val))))))"

text \<open>\<^verbatim>\<open>a + b\<close> on two arrays, with the broadcasting of \<^verbatim>\<open>np_sub\<close>.\<close>

definition np_add :: "vec \<Rightarrow> vec \<Rightarrow> error + vec" where
  "np_add x a =
     (if length x = length a then Inr (map2 (+) x a)
      else if length a = 1 then Inr (map (\<lambda>v. v + hd a) x)
      else if length x = 1 then Inr (map (\<lambda>v. hd x + v) a)
      else Inl ValueError)"

text \<open>\<^verbatim>\<open>new_grad\<close> of \<^verbatim>\<open>_wrap\<close>.\<close>

definition new_grad :: "obj \<Rightarrow> pt \<Rightarrow> error + cached_grad" where
  "new_grad self x =
     (case taylor_grad_f_at_point self of
        None \<Rightarrow> Inl AttributeError
      | Some cg \<Rightarrow>
          (if is_CombinedFunction self then
             (case cg of
                Single g \<Rightarrow>
                  (case np_add g (grad_non_f self x) of
                     Inl e \<Rightarrow> Inl e
                   | Inr s \<Rightarrow> Inr (Single s))
              | PerBlock gs \<Rightarrow>
                  (if homogeneous gs
                   then (case collect (\<lambda>g. np_add g (grad_non_f self x)) gs of
                           Inl e \<Rightarrow> Inl e
                         | Inr ss \<Rightarrow> Inr (PerBlock ss))
                   else Inl ValueError))
           else Inr cg))"

text \<open>
  The running value \<^verbatim>\<open>val\<close> of \<^verbatim>\<open>new_f\<close> of \<^verbatim>\<open>_mb_wrap\<close>: the float \<^verbatim>\<open>0.0\<close> it starts
  from, a one-dimensional array of one entry, or an array of two or more dimensions given
  by the entries that \<^verbatim>\<open>val[0, 0]\<close> ranges over.
\<close>

datatype val = Scalar real | OneD real | Entries "real list"

fun val_add :: "val \<Rightarrow> val \<Rightarrow> val" where
  "val_add (Scalar c) (Scalar t) = Scalar (c + t)"
| "val_add (Scalar c) (OneD t) = OneD (c + t)"
| "val_add (Scalar c) (Entries ts) = Entries (map (\<lambda>t. c + t) ts)"
| "val_add (OneD c) (Scalar t) = OneD (c + t)"
| "val_add (OneD c) (OneD t) = OneD (c + t)"
| "val_add (OneD c) (Entries ts) = Entries (map (\<lambda>t. c + t) ts)"
| "val_add (Entries es) (Scalar t) = Entries (map (\<lambda>s. s + t) es)"
| "val_add (Entries es) (OneD t) = Entries (map (\<lambda>s. s + t) es)"
| "val_add (Entries es) (Entries ts) = Entries (map2 (+) es ts)"

text \<open>
  \<^verbatim>\<open>np.dot(self._taylor_grad_f_at_point[i].T, d)\<close>. Entry \<open>i\<close> of a list of gradients is
  a column. On a single gradient array the subscript gives row \<open>i\<close>, a one-dimensional
  array of one entry, whose product with a column is one-dimensional and needs the column
  to have one row.
\<close>

fun dot_row :: "real \<Rightarrow> pt \<Rightarrow> error + val" where
  "dot_row c (Arr d) = (if length d = 1 then Inr (OneD (c * hd d)) else Inl ValueError)"
| "dot_row c (Blocks ds) =
     (case collect (\<lambda>d. if length d = 1 then Inr (c * hd d) else Inl ValueError) ds of
        Inl e \<Rightarrow> Inl e
      | Inr ss \<Rightarrow> Inr (Entries ss))"

definition mb_term :: "cached_grad \<Rightarrow> nat \<Rightarrow> pt \<Rightarrow> pt \<Rightarrow> error + val" where
  "mb_term cg i x a =
     (case cg of
        PerBlock gs \<Rightarrow>
          (case py_index_int gs (int i) of
             Inl e \<Rightarrow> Inl e
           | Inr g \<Rightarrow>
               (case pt_sub x (Arr (pt_nth a i)) of
                  Inl e \<Rightarrow> Inl e
                | Inr d \<Rightarrow>
                    (case dot_T g d of Inl e \<Rightarrow> Inl e | Inr ss \<Rightarrow> Inr (Entries ss))))
      | Single g \<Rightarrow>
          (case py_index_int g (int i) of
             Inl e \<Rightarrow> Inl e
           | Inr c \<Rightarrow>
               (case pt_sub x (Arr (pt_nth a i)) of
                  Inl e \<Rightarrow> Inl e
                | Inr d \<Rightarrow> dot_row c d)))"

text \<open>
  The loop of \<^verbatim>\<open>new_f\<close> of \<^verbatim>\<open>_mb_wrap\<close>:
  \<^verbatim>\<open>val += self._taylor_f_at_point + np.dot(self._taylor_grad_f_at_point[i].T, x - self._taylor_point[i])\<close>.
\<close>

fun mb_new_f_loop :: "nat list \<Rightarrow> obj \<Rightarrow> pt \<Rightarrow> val \<Rightarrow> error + val" where
  "mb_new_f_loop [] self x val = Inr val"
| "mb_new_f_loop (i # is) self x val =
     (case taylor_f_at_point self of
        None \<Rightarrow> Inl AttributeError
      | Some v \<Rightarrow>
          (case taylor_grad_f_at_point self of
             None \<Rightarrow> Inl AttributeError
           | Some cg \<Rightarrow>
               (case taylor_point self of
                  None \<Rightarrow> Inl AttributeError
                | Some a \<Rightarrow>
                    (case mb_term cg i x a of
                       Inl e \<Rightarrow> Inl e
                     | Inr t \<Rightarrow>
                         mb_new_f_loop is self x (val_add val (val_add (Scalar v) t))))))"

text \<open>
  \<^verbatim>\<open>new_f\<close> of \<^verbatim>\<open>_mb_wrap\<close>: the loop, \<^verbatim>\<open>val += self._non_f(x)\<close> and \<^verbatim>\<open>val[0, 0]\<close>.
  A float has no subscript, and a one-dimensional array has no second one.
\<close>

definition mb_new_f :: "obj \<Rightarrow> pt \<Rightarrow> error + real" where
  "mb_new_f self x =
     (case taylor_point self of
        None \<Rightarrow> Inl AttributeError
      | Some a \<Rightarrow>
          (case mb_new_f_loop [0 ..< pt_len a] self x (Scalar 0) of
             Inl e \<Rightarrow> Inl e
           | Inr val \<Rightarrow>
               (case val_add val (Scalar (non_f self x)) of
                  Scalar c \<Rightarrow> Inl TypeError
                | OneD c \<Rightarrow> Inl IndexError
                | Entries es \<Rightarrow> first_entry es)))"

text \<open>
  The calls \<^verbatim>\<open>fun.f(x)\<close> and \<^verbatim>\<open>fun.grad(x)\<close> on an object: whatever is bound at the
  time. \<^verbatim>\<open>new_grad\<close> of \<^verbatim>\<open>_mb_wrap\<close> takes a second argument, so the call with one is a
  \<^verbatim>\<open>TypeError\<close>.
\<close>

definition obj_f :: "obj \<Rightarrow> pt \<Rightarrow> error + real" where
  "obj_f ob x =
     (case f_attr ob of
        Original \<Rightarrow> Inr (orig_f ob x)
      | WrapNew \<Rightarrow> new_f ob x
      | MbWrapNew \<Rightarrow> mb_new_f ob x)"

definition obj_grad :: "obj \<Rightarrow> pt \<Rightarrow> error + cached_grad" where
  "obj_grad ob x =
     (case grad_attr ob of
        Original \<Rightarrow> Inr (Single (orig_grad ob x))
      | WrapNew \<Rightarrow> new_grad ob x
      | MbWrapNew \<Rightarrow> Inl TypeError)"

subsection \<open>The wrap routines\<close>

text \<open>
  \<^verbatim>\<open>_wrap\<close> on one object: the object as the routine leaves it, and the exception if it
  raises. The double-wrap error is the \<^verbatim>\<open>RuntimeError\<close>.
\<close>

definition wrap_obj :: "obj \<Rightarrow> pt \<Rightarrow> obj \<times> error option" where
  "wrap_obj fun p =
     (if taylor_point fun \<noteq> None then (fun, Some RuntimeError)
      else
        (let fun = fun\<lparr>taylor_point := Some p\<rparr> in
         if taylor_f_at_point fun \<noteq> None then (fun, Some RuntimeError)
         else
           (case (if is_CombinedFunction fun then Inr (smooth_f fun p) else obj_f fun p) of
              Inl e \<Rightarrow> (fun, Some e)
            | Inr v \<Rightarrow>
                (let fun = fun\<lparr>taylor_f_at_point := Some v\<rparr> in
                 if taylor_grad_f_at_point fun \<noteq> None then (fun, Some RuntimeError)
                 else
                   (case (if is_CombinedFunction fun then Inr (Single (smooth_grad_f fun p))
                          else obj_grad fun p) of
                      Inl e \<Rightarrow> (fun, Some e)
                    | Inr g \<Rightarrow>
                        (fun\<lparr>taylor_grad_f_at_point := Some g,
                             f_attr := WrapNew, grad_attr := WrapNew\<rparr>, None))))))"

text \<open>\<^verbatim>\<open>_mb_wrap\<close> on one object.\<close>

definition mb_wrap_obj :: "obj \<Rightarrow> pt \<Rightarrow> obj \<times> error option" where
  "mb_wrap_obj fun p =
     (if taylor_point fun \<noteq> None then (fun, Some RuntimeError)
      else
        (let fun = fun\<lparr>taylor_point := Some p\<rparr> in
         if taylor_f_at_point fun \<noteq> None then (fun, Some RuntimeError)
         else
           (let fun = fun\<lparr>taylor_f_at_point := Some (smooth_f fun p)\<rparr> in
            if taylor_grad_f_at_point fun \<noteq> None then (fun, Some RuntimeError)
            else
              (fun\<lparr>taylor_grad_f_at_point :=
                      Some (PerBlock (map (block_grad_f fun p) [0 ..< pt_len p])),
                   f_attr := MbWrapNew, grad_attr := MbWrapNew\<rparr>, None))))"

text \<open>
  The routines on the store: the object at \<open>fun\<close> is updated in place, and the result is
  the same reference.
\<close>

definition wrap :: "store \<Rightarrow> addr \<Rightarrow> pt \<Rightarrow> store \<times> (error + addr)" where
  "wrap h fun p =
     (case wrap_obj (h ! fun) p of
        (ob, Some e) \<Rightarrow> (h[fun := ob], Inl e)
      | (ob, None) \<Rightarrow> (h[fun := ob], Inr fun))"

definition mb_wrap :: "store \<Rightarrow> addr \<Rightarrow> pt \<Rightarrow> store \<times> (error + addr)" where
  "mb_wrap h fun p =
     (case mb_wrap_obj (h ! fun) p of
        (ob, Some e) \<Rightarrow> (h[fun := ob], Inl e)
      | (ob, None) \<Rightarrow> (h[fun := ob], Inr fun))"

subsection \<open>\<^verbatim>\<open>__call__\<close>\<close>

text \<open>
  \<^verbatim>\<open>copy.deepcopy\<close>: every object reachable from the argument is copied once and the
  references between the copies follow those between the originals. The store is
  extended by a copy of each of its objects, with every reference moved to the copy of
  its target; the copy of the object at \<open>r\<close> is at \<open>r + length h\<close>. Copies of objects
  that the argument does not reach are referenced by nothing.
\<close>

fun relocate_kind :: "nat \<Rightarrow> kind \<Rightarrow> kind" where
  "relocate_kind n PlainFunction = PlainFunction"
| "relocate_kind n MultiblockFunction = MultiblockFunction"
| "relocate_kind n (CombinedFunction F D N) =
     CombinedFunction (map (\<lambda>a. a + n) F) (map (\<lambda>a. a + n) D) (map (\<lambda>a. a + n) N)"
| "relocate_kind n (CombinedMultiblockFunction F D N) =
     CombinedMultiblockFunction (map (map (map (\<lambda>a. a + n))) F)
       (map (map (\<lambda>a. a + n)) D) (map (map (\<lambda>a. a + n)) N)"

definition relocate :: "nat \<Rightarrow> obj \<Rightarrow> obj" where
  "relocate n ob = ob\<lparr>kind := relocate_kind n (kind ob)\<rparr>"

definition deepcopy :: "store \<Rightarrow> addr \<Rightarrow> store \<times> addr" where
  "deepcopy h r = (h @ map (relocate (length h)) h, r + length h)"

text \<open>
  The loops of the \<^verbatim>\<open>CombinedMultiblockFunction\<close> branch visit the entries of a nested
  list in the order of its flattening. Each entry that is a \<^verbatim>\<open>BaseTaylor\<close> goes through
  \<^verbatim>\<open>_mb_wrap\<close>, which returns the reference it was given, so the assignment back into
  the list changes nothing; an exception ends the traversal.
\<close>

fun wrap_each :: "store \<Rightarrow> addr list \<Rightarrow> pt \<Rightarrow> store \<times> error option" where
  "wrap_each h [] p = (h, None)"
| "wrap_each h (a # as) p =
     (if is_BaseTaylor (h ! a) then
        (case mb_wrap h a p of
           (h, Inl e) \<Rightarrow> (h, Some e)
         | (h, Inr b) \<Rightarrow> wrap_each h as p)
      else wrap_each h as p)"

text \<open>
  \<^verbatim>\<open>FirstOrderTaylorWrapper.__call__\<close>. In the \<^verbatim>\<open>CombinedFunction\<close> branch the first
  statement is \<^verbatim>\<open>for i in len(fun._f)\<close>: \<^verbatim>\<open>len\<close> returns an \<^verbatim>\<open>int\<close>, and iterating over
  an \<^verbatim>\<open>int\<close> is a \<^verbatim>\<open>TypeError\<close>, whatever the list holds.
\<close>

definition call :: "store \<Rightarrow> addr \<Rightarrow> pt \<Rightarrow> store \<times> (error + addr)" where
  "call h function p =
     (let (h, fun) = deepcopy h function in
      case kind (h ! fun) of
        CombinedFunction F D N \<Rightarrow> (h, Inl TypeError)
      | CombinedMultiblockFunction F D N \<Rightarrow>
          (case wrap_each h (concat (concat F)) p of
             (h, Some e) \<Rightarrow> (h, Inl e)
           | (h, None) \<Rightarrow>
               (case wrap_each h (concat D) p of
                  (h, Some e) \<Rightarrow> (h, Inl e)
                | (h, None) \<Rightarrow>
                    (case wrap_each h (concat N) p of
                       (h, Some e) \<Rightarrow> (h, Inl e)
                     | (h, None) \<Rightarrow> (h[fun := (h ! fun)\<lparr>at_point_attr := True\<rparr>], Inr fun))))
      | MultiblockFunction \<Rightarrow> mb_wrap h fun p
      | PlainFunction \<Rightarrow> wrap h fun p)"

text \<open>
  The invariant of the two wrap routines: \<^verbatim>\<open>f\<close> or \<^verbatim>\<open>grad\<close> is rebound only on an
  object that carries all three markers.
\<close>

definition rebound_only_marked :: "obj \<Rightarrow> bool" where
  "rebound_only_marked ob =
     ((f_attr ob = Original \<and> grad_attr ob = Original) \<or>
      (taylor_point ob \<noteq> None \<and> taylor_f_at_point ob \<noteq> None \<and>
       taylor_grad_f_at_point ob \<noteq> None))"


section \<open>Example objects\<close>

text \<open>
  A concrete collaborator for the examples: the squared norm, the sum of the squares of
  the entries of an array of either shape, with gradient \<open>2p\<close> of the shape of \<open>p\<close>, all
  counters at zero.
\<close>

definition stub :: ufun where
  "stub = \<lparr>uf = (\<lambda>p. sum_list (map (\<lambda>v. v * v) (entries p))), ugrad = amap (\<lambda>v. 2 * v),
           f_calls = 0, grad_calls = 0, reset_calls = 0\<rparr>"

definition cached :: taylor where
  "cached = \<lparr>func = Some stub, point = A1 [1, 2], f_at_point = Some 5,
             grad_at_point = Some (A1 [2, 4])\<rparr>"

text \<open>
  A two-block function for the examples: the inner product of its two blocks, whose
  gradient in one block is the other block.
\<close>

definition pair_fun :: mb_ufun where
  "pair_fun = \<lparr>mb_uf = (\<lambda>bs. sum_list (map2 (*) (bs ! 0) (bs ! 1))),
               mb_ugrad = (\<lambda>bs i. bs ! (1 - i))\<rparr>"

text \<open>
  Objects for the engine. \<open>plain\<close> is a function of constant value 1 with no markers;
  \<open>smooth_loss\<close> is the squared norm, \<open>penalty\<close> the sum of absolute values, and
  \<open>composite\<close> a \<^verbatim>\<open>CombinedFunction\<close> of the two, stored behind it at the references 1
  and 2.
\<close>

definition plain :: obj where
  "plain = \<lparr>kind = PlainFunction, is_BaseTaylor = False,
     orig_f = (\<lambda>x. 1), orig_grad = (\<lambda>x. []),
     smooth_f = (\<lambda>x. 1), smooth_grad_f = (\<lambda>x. []), block_grad_f = (\<lambda>x i. [0]),
     non_f = (\<lambda>x. 0), grad_non_f = (\<lambda>x. []),
     taylor_point = None, taylor_f_at_point = None, taylor_grad_f_at_point = None,
     f_attr = Original, grad_attr = Original, at_point_attr = False\<rparr>"

definition taylor_entry :: obj where
  "taylor_entry = plain\<lparr>is_BaseTaylor := True\<rparr>"

definition nested_composite :: obj where
  "nested_composite = plain\<lparr>kind := CombinedMultiblockFunction [[[1]]] [[]] [[]]\<rparr>"

definition sq :: "pt \<Rightarrow> real" where
  "sq x = (case x of Arr v \<Rightarrow> sum_list (map (\<lambda>c. c * c) v)
                   | Blocks bs \<Rightarrow> sum_list (map (\<lambda>c. c * c) (concat bs)))"

definition sq_grad :: "pt \<Rightarrow> vec" where
  "sq_grad x = (case x of Arr v \<Rightarrow> map (\<lambda>c. 2 * c) v
                        | Blocks bs \<Rightarrow> map (\<lambda>c. 2 * c) (concat bs))"

definition l1 :: "pt \<Rightarrow> real" where
  "l1 x = (case x of Arr v \<Rightarrow> sum_list (map abs v)
                   | Blocks bs \<Rightarrow> sum_list (map abs (concat bs)))"

definition smooth_loss :: obj where
  "smooth_loss = plain\<lparr>orig_f := sq, orig_grad := sq_grad, smooth_f := sq, smooth_grad_f := sq_grad\<rparr>"

definition penalty :: obj where
  "penalty = plain\<lparr>orig_f := l1, non_f := l1\<rparr>"

definition composite :: obj where
  "composite = plain\<lparr>kind := CombinedFunction [1] [2] [], orig_f := (\<lambda>x. sq x + l1 x),
     smooth_f := sq, smooth_grad_f := sq_grad, non_f := l1\<rparr>"

definition two_losses :: obj where
  "two_losses = plain\<lparr>kind := CombinedFunction [1, 2] [] []\<rparr>"

definition two_block :: obj where
  "two_block = plain\<lparr>kind := MultiblockFunction\<rparr>"

text \<open>The store after \<^verbatim>\<open>__call__\<close> has wrapped \<open>plain\<close> once.\<close>

definition once_wrapped :: store where
  "once_wrapped = fst (call [plain] 0 (Arr [1, 2]))"


section \<open>Properties of FirstOrderTaylorApproximation\<close>

lemma np_sub_self: "np_sub a a = Inr (replicate (length a) 0)"
  by (induction a) (auto simp: np_sub_def)

lemma np_dot_zero: "length g = n \<Longrightarrow> np_dot g (replicate n 0) = Inr 0"
proof -
  have "sum_list (map2 (*) g (replicate (length g) (0::real))) = 0"
    by (induction g) auto
  then show "length g = n \<Longrightarrow> np_dot g (replicate n 0) = Inr 0"
    by (auto simp: np_dot_def)
qed

lemma precompute_cases:
  "precompute self = (self', r) \<Longrightarrow>
     point self' = point self \<and>
     (case func self of
        None \<Rightarrow> func self' = None \<and> (f_at_point self = None \<or> grad_at_point self = None \<longrightarrow> r = Some AttributeError)
         \<and> f_at_point self' = f_at_point self \<and> grad_at_point self' = grad_at_point self
      | Some u \<Rightarrow> r = None \<and>
          f_at_point self' = (case f_at_point self of None \<Rightarrow> Some (uf u (point self)) | Some v \<Rightarrow> Some v) \<and>
          grad_at_point self' = (case grad_at_point self of None \<Rightarrow> Some (ugrad u (point self)) | Some g \<Rightarrow> Some g) \<and>
          (\<exists>u'. func self' = Some u' \<and> uf u' = uf u \<and> ugrad u' = ugrad u \<and>
             f_calls u' = f_calls u + (if f_at_point self = None then 1 else 0) \<and>
             grad_calls u' = grad_calls u + (if grad_at_point self = None then 1 else 0)))"
  by (auto simp: precompute_def BaseTaylor_precompute_def call_f_def call_grad_def Let_def
      split: option.splits if_splits prod.splits)

lemma fst_f: "fst (f self w) = fst (precompute self)"
  by (auto simp: f_def split: prod.splits option.splits sum.splits)

lemma fst_grad: "fst (grad self w) = fst (precompute self)"
  by (auto simp: grad_def split: prod.splits option.splits sum.splits)

lemma precompute_cached:
  "f_at_point self = Some v \<Longrightarrow> grad_at_point self = Some g \<Longrightarrow> precompute self = (self, None)"
  by (simp add: precompute_def BaseTaylor_precompute_def)

lemma precompute_count:
  "f_count (fst (precompute self)) =
     f_count self + (if f_at_point self = None \<and> func self \<noteq> None then 1 else 0)"
  "grad_count (fst (precompute self)) =
     grad_count self + (if grad_at_point self = None \<and> func self \<noteq> None then 1 else 0)"
  using precompute_cases [of self "fst (precompute self)" "snd (precompute self)"]
  by (auto simp: f_count_def grad_count_def split: option.splits)

lemma precompute_keeps:
  "f_at_point self = Some v \<Longrightarrow> f_at_point (fst (precompute self)) = Some v"
  "grad_at_point self = Some g \<Longrightarrow> grad_at_point (fst (precompute self)) = Some g"
  "func self = None \<Longrightarrow> fst (precompute self) = self"
  "func self \<noteq> None \<Longrightarrow> f_at_point (fst (precompute self)) \<noteq> None"
  "func self \<noteq> None \<Longrightarrow> grad_at_point (fst (precompute self)) \<noteq> None"
  "func self \<noteq> None \<Longrightarrow> func (fst (precompute self)) \<noteq> None"
  using precompute_cases [of self "fst (precompute self)" "snd (precompute self)"]
  by (auto simp: precompute_def BaseTaylor_precompute_def split: option.splits)

lemma run_step: "run (c # cs) self = run cs (fst (precompute self))"
  by (cases c) (simp_all add: fst_f fst_grad)

lemma run_no_func: "func self = None \<Longrightarrow> run cs self = self"
proof (induction cs arbitrary: self)
  case Nil show ?case by simp
next
  case (Cons c cs) then show ?case unfolding run_step by (simp add: precompute_keeps)
qed

lemma run_f_cached:
  "f_at_point self = Some v \<Longrightarrow>
     f_at_point (run cs self) = Some v \<and> f_count (run cs self) = f_count self"
proof (induction cs arbitrary: self)
  case Nil then show ?case by simp
next
  case (Cons c cs) then show ?case unfolding run_step
    by (simp add: precompute_keeps precompute_count)
qed

lemma run_grad_cached:
  "grad_at_point self = Some g \<Longrightarrow>
     grad_at_point (run cs self) = Some g \<and> grad_count (run cs self) = grad_count self"
proof (induction cs arbitrary: self)
  case Nil then show ?case by simp
next
  case (Cons c cs) then show ?case unfolding run_step
    by (simp add: precompute_keeps precompute_count)
qed

lemma run_f_count: "f_count (run cs self) \<le> f_count self + 1"
proof (cases cs)
  case Nil then show ?thesis by simp
next
  case (Cons c cs')
  show ?thesis
  proof (cases "func self = None")
    case True then show ?thesis by (simp add: run_no_func)
  next
    case False
    then obtain v where "f_at_point (fst (precompute self)) = Some v"
      using precompute_keeps(4) [of self] by auto
    then have "f_count (run cs' (fst (precompute self))) = f_count (fst (precompute self))"
      using run_f_cached by blast
    then show ?thesis unfolding Cons run_step by (simp add: precompute_count)
  qed
qed

lemma run_grad_count: "grad_count (run cs self) \<le> grad_count self + 1"
proof (cases cs)
  case Nil then show ?thesis by simp
next
  case (Cons c cs')
  show ?thesis
  proof (cases "func self = None")
    case True then show ?thesis by (simp add: run_no_func)
  next
    case False
    then obtain g where "grad_at_point (fst (precompute self)) = Some g"
      using precompute_keeps(5) [of self] by auto
    then have "grad_count (run cs' (fst (precompute self))) = grad_count (fst (precompute self))"
      using run_grad_cached by blast
    then show ?thesis unfolding Cons run_step by (simp add: precompute_count)
  qed
qed

lemma precompute_inv:
  assumes "func self = Some u"
    and "f_at_point self = None \<or> f_at_point self = Some (uf u (point self))"
    and "grad_at_point self = None \<or> grad_at_point self = Some (ugrad u (point self))"
  shows "\<exists>u'. func (fst (precompute self)) = Some u' \<and> uf u' = uf u \<and> ugrad u' = ugrad u \<and>
           point (fst (precompute self)) = point self \<and>
           f_at_point (fst (precompute self)) = Some (uf u (point self)) \<and>
           grad_at_point (fst (precompute self)) = Some (ugrad u (point self)) \<and>
           snd (precompute self) = None"
  using precompute_cases [of self "fst (precompute self)" "snd (precompute self)"] assms
  by auto

lemma run_inv:
  assumes "func self = Some u"
    and "f_at_point self = None \<or> f_at_point self = Some (uf u (point self))"
    and "grad_at_point self = None \<or> grad_at_point self = Some (ugrad u (point self))"
  shows "(f_at_point (run cs self) = None \<or> f_at_point (run cs self) = Some (uf u (point self))) \<and>
         (grad_at_point (run cs self) = None \<or>
            grad_at_point (run cs self) = Some (ugrad u (point self))) \<and>
         point (run cs self) = point self"
  using assms
proof (induction cs arbitrary: self u)
  case Nil then show ?case by simp
next
  case (Cons c cs)
  from precompute_inv [OF Cons.prems] obtain u' where
    u': "func (fst (precompute self)) = Some u'" "uf u' = uf u" "ugrad u' = ugrad u"
      "point (fst (precompute self)) = point self"
      "f_at_point (fst (precompute self)) = Some (uf u (point self))"
      "grad_at_point (fst (precompute self)) = Some (ugrad u (point self))"
    by blast
  have "(f_at_point (run cs (fst (precompute self))) = None \<or>
         f_at_point (run cs (fst (precompute self))) = Some (uf u' (point (fst (precompute self))))) \<and>
        (grad_at_point (run cs (fst (precompute self))) = None \<or>
         grad_at_point (run cs (fst (precompute self))) = Some (ugrad u' (point (fst (precompute self))))) \<and>
        point (run cs (fst (precompute self))) = point (fst (precompute self))"
    by (rule Cons.IH [OF u'(1)]) (simp_all add: u')
  then show ?case unfolding run_step by (simp add: u')
qed

lemma at_point_fields:
  "f_at_point (at_point self b) = None" "grad_at_point (at_point self b) = None"
  "point (at_point self b) = b"
  "func (at_point self b) = map_option call_reset (func self)"
  by (auto simp: at_point_def reset_def BaseTaylor_reset_def split: option.splits)

lemma f_value:
  assumes "func self = Some u"
    and "f_at_point self = None \<or> f_at_point self = Some (uf u (point self))"
    and "grad_at_point self = None \<or> grad_at_point self = Some (ugrad u (point self))"
  shows "snd (f self x) =
           (case nd_sub x (point self) of
              Inl e \<Rightarrow> Inl e
            | Inr d \<Rightarrow> (case nd_dot (ugrad u (point self)) d of
                          Inl e \<Rightarrow> Inl e
                        | Inr r \<Rightarrow> Inr (add_number (uf u (point self)) r)))"
proof -
  obtain self' r where p: "precompute self = (self', r)" by (cases "precompute self")
  from precompute_inv [OF assms] p have
    "point self' = point self" "f_at_point self' = Some (uf u (point self))"
    "grad_at_point self' = Some (ugrad u (point self))" "r = None"
    by auto
  then show ?thesis by (simp add: f_def p split: sum.splits)
qed

lemma grad_value:
  assumes "func self = Some u"
    and "f_at_point self = None \<or> f_at_point self = Some (uf u (point self))"
    and "grad_at_point self = None \<or> grad_at_point self = Some (ugrad u (point self))"
  shows "snd (grad self x) = Inr (ugrad u (point self))"
proof -
  obtain self' r where p: "precompute self = (self', r)" by (cases "precompute self")
  from precompute_inv [OF assms] p have
    "grad_at_point self' = Some (ugrad u (point self))" "r = None"
    by auto
  then show ?thesis by (simp add: grad_def p)
qed

lemma expansion_at_center:
  "length g = length a \<Longrightarrow>
     (case nd_sub (A1 a) (A1 a) of Inl e \<Rightarrow> Inl e
      | Inr d \<Rightarrow> (case nd_dot (A1 g) d of Inl e \<Rightarrow> Inl e
                    | Inr r \<Rightarrow> Inr (add_number v r))) = Inr (Number v)"
  by (simp add: np_sub_self np_dot_zero)

text \<open>
  Claim C6. Over any sequence of \<^verbatim>\<open>f\<close> and \<^verbatim>\<open>grad\<close> calls on a
  \<^verbatim>\<open>FirstOrderTaylorApproximation\<close> with no \<^verbatim>\<open>at_point\<close> in between, the wrapped
  function's \<^verbatim>\<open>f\<close> and \<^verbatim>\<open>grad\<close> are each invoked at most once. A cache that is filled
  stays as it is and costs no further invocation, and with both caches filled a call
  leaves the object unchanged and \<^verbatim>\<open>grad\<close> returns the cached gradient whatever its
  argument.
\<close>

theorem cached_calls_at_most_once:
  "f_count (run cs self) \<le> f_count self + 1 \<and>
   grad_count (run cs self) \<le> grad_count self + 1 \<and>
   (\<forall>v. f_at_point self = Some v \<longrightarrow>
      f_at_point (run cs self) = Some v \<and> f_count (run cs self) = f_count self) \<and>
   (\<forall>g. grad_at_point self = Some g \<longrightarrow>
      grad_at_point (run cs self) = Some g \<and> grad_count (run cs self) = grad_count self) \<and>
   (\<forall>v g. f_at_point self = Some v \<and> grad_at_point self = Some g \<longrightarrow>
      fst (f self w) = self \<and> grad self w = (self, Inr g))"
proof -
  have "fst (f self w) = self \<and> grad self w = (self, Inr g)"
    if "f_at_point self = Some v" "grad_at_point self = Some g" for v g
    using precompute_cached [OF that] that by (simp add: fst_f grad_def)
  then show ?thesis
    using run_f_count [of cs self] run_grad_count [of cs self]
      run_f_cached [of self _ cs] run_grad_cached [of self _ cs]
    by blast
qed

theorem cached_calls_at_most_once_witness:
  "f_at_point cached = Some 5 \<and> grad_at_point cached = Some (A1 [2, 4]) \<and>
   f_count (run [Value (A1 [3, 4]), Gradient (A1 [0, 0]), Value (A2 [[1], [2]])] cached) = 0 \<and>
   grad_count (run [Value (A1 [3, 4]), Gradient (A1 [0, 0]), Value (A2 [[1], [2]])] cached) = 0 \<and>
   grad cached (A1 [7, 7]) = (cached, Inr (A1 [2, 4]))"
  using cached_calls_at_most_once
    [of "[Value (A1 [3, 4]), Gradient (A1 [0, 0]), Value (A2 [[1], [2]])]" cached "A1 [7, 7]"]
  by (simp add: cached_def stub_def f_count_def grad_count_def)

text \<open>
  \<^verbatim>\<open>at_point(b)\<close> clears both caches and moves the point to \<open>b\<close>, whatever the shape
  of \<open>b\<close>; every later \<^verbatim>\<open>f(x)\<close> and \<^verbatim>\<open>grad(x)\<close> is computed from the value and the
  gradient at \<open>b\<close>, and after any further sequence of calls each cache is empty or holds
  what was computed at \<open>b\<close>.
\<close>

lemma recenter_clears_caches:
  assumes "func self = Some u"
  shows "f_at_point (at_point self b) = None \<and> grad_at_point (at_point self b) = None \<and>
         point (at_point self b) = b \<and>
         snd (f (at_point self b) x) =
           (case nd_sub x b of
              Inl e \<Rightarrow> Inl e
            | Inr d \<Rightarrow> (case nd_dot (ugrad u b) d of
                          Inl e \<Rightarrow> Inl e
                        | Inr r \<Rightarrow> Inr (add_number (uf u b) r))) \<and>
         snd (grad (at_point self b) x) = Inr (ugrad u b) \<and>
         (f_at_point (run cs (at_point self b)) = None \<or>
          f_at_point (run cs (at_point self b)) = Some (uf u b)) \<and>
         (grad_at_point (run cs (at_point self b)) = None \<or>
          grad_at_point (run cs (at_point self b)) = Some (ugrad u b))"
proof -
  let ?s = "at_point self b"
  have fn: "func ?s = Some (call_reset u)" by (simp add: at_point_fields assms)
  have u: "uf (call_reset u) = uf u" "ugrad (call_reset u) = ugrad u"
    by (simp_all add: call_reset_def)
  have c: "f_at_point ?s = None \<or> f_at_point ?s = Some (uf (call_reset u) (point ?s))"
    "grad_at_point ?s = None \<or> grad_at_point ?s = Some (ugrad (call_reset u) (point ?s))"
    by (simp_all add: at_point_fields)
  have v: "snd (f ?s x) =
           (case nd_sub x b of
              Inl e \<Rightarrow> Inl e
            | Inr d \<Rightarrow> (case nd_dot (ugrad u b) d of
                          Inl e \<Rightarrow> Inl e
                        | Inr r \<Rightarrow> Inr (add_number (uf u b) r)))"
    using f_value [OF fn c, of x] unfolding u at_point_fields(3) .
  have g: "snd (grad ?s x) = Inr (ugrad u b)"
    using grad_value [OF fn c] by (simp add: u at_point_fields)
  have r: "(f_at_point (run cs ?s) = None \<or> f_at_point (run cs ?s) = Some (uf u b)) \<and>
           (grad_at_point (run cs ?s) = None \<or> grad_at_point (run cs ?s) = Some (ugrad u b))"
    using run_inv [OF fn c, of cs] by (simp add: u at_point_fields)
  show ?thesis using v g r by (simp add: at_point_fields)
qed

text \<open>
  On one-dimensional arrays, with the gradient at \<open>b\<close> of the length of \<open>b\<close>, the first
  \<^verbatim>\<open>f(b)\<close> after \<^verbatim>\<open>at_point(b)\<close> is the function's value at \<open>b\<close>.
\<close>

lemma recenter_value_one_dimensional:
  assumes "func self = Some u" and "ugrad u (A1 b) = A1 g" and "length g = length b"
  shows "snd (f (at_point self (A1 b)) (A1 b)) = Inr (Number (uf u (A1 b)))"
proof -
  have "snd (f (at_point self (A1 b)) (A1 b)) =
          (case nd_sub (A1 b) (A1 b) of
             Inl e \<Rightarrow> Inl e
           | Inr d \<Rightarrow> (case nd_dot (ugrad u (A1 b)) d of
                         Inl e \<Rightarrow> Inl e
                       | Inr r \<Rightarrow> Inr (add_number (uf u (A1 b)) r)))"
    using recenter_clears_caches [OF assms(1), of "A1 b" "A1 b" "[]"] by blast
  then show ?thesis unfolding assms(2) expansion_at_center [OF assms(3)] .
qed

text \<open>
  On p-by-1 columns with \<open>p > 1\<close> the \<^verbatim>\<open>np.dot\<close> of \<^verbatim>\<open>f\<close>, which the source writes
  without a transpose, multiplies a p-by-1 array with a p-by-1 array: the shapes are not
  aligned, whatever the entries.
\<close>

lemma column_dot_raises:
  "length g = length d \<Longrightarrow> 1 < length d \<Longrightarrow>
     nd_dot (A2 (map (\<lambda>c. [c]) g)) (A2 (map (\<lambda>c. [c]) d)) = Inl ValueError"
proof -
  assume l: "length g = length d" "1 < length d"
  have "map length (map (\<lambda>c. [c]) g) = replicate (length g) 1"
    by (induction g) simp_all
  then have "map length (map (\<lambda>c. [c]) g) \<noteq>
               replicate (length (map (\<lambda>c. [c]) g)) (length (map (\<lambda>c. [c]) d))"
    using l by (auto simp: replicate_eq_replicate)
  then show ?thesis by simp
qed

lemma column_sub_self:
  "nd_sub (A2 (map (\<lambda>c. [c]) b)) (A2 (map (\<lambda>c. [c]) b)) =
     Inr (A2 (map (\<lambda>c. [c]) (replicate (length b) 0)))"
proof -
  have "collect (\<lambda>(x, a). np_sub x a) (zip (map (\<lambda>c. [c]) b) (map (\<lambda>c. [c]) b)) =
          Inr (map (\<lambda>c. [c]) (replicate (length b) (0::real)))"
    by (induction b) (simp_all add: np_sub_def)
  then show ?thesis by (simp add: rows_sub_def)
qed

text \<open>
  So does \<^verbatim>\<open>f(b)\<close> after \<^verbatim>\<open>at_point(b)\<close> for every column \<open>b\<close> of two or more rows, when
  the gradient at \<open>b\<close> is a column of as many rows.
\<close>

lemma recenter_value_raises_on_every_column:
  assumes "func self = Some u"
    and "ugrad u (A2 (map (\<lambda>c. [c]) b)) = A2 (map (\<lambda>c. [c]) g)"
    and "length g = length b" and "1 < length b"
  shows "snd (f (at_point self (A2 (map (\<lambda>c. [c]) b))) (A2 (map (\<lambda>c. [c]) b))) = Inl ValueError"
proof -
  let ?b = "A2 (map (\<lambda>c. [c]) b)"
  have "snd (f (at_point self ?b) ?b) =
          (case nd_sub ?b ?b of
             Inl e \<Rightarrow> Inl e
           | Inr d \<Rightarrow> (case nd_dot (ugrad u ?b) d of
                         Inl e \<Rightarrow> Inl e
                       | Inr r \<Rightarrow> Inr (add_number (uf u ?b) r)))"
    using recenter_clears_caches [OF assms(1), of ?b ?b "[]"] by blast
  moreover have "nd_dot (A2 (map (\<lambda>c. [c]) g)) (A2 (map (\<lambda>c. [c]) (replicate (length b) 0))) =
                   Inl ValueError"
    using assms(3,4) by (intro column_dot_raises) simp_all
  ultimately show ?thesis unfolding assms(2) column_sub_self by simp
qed

text \<open>
  Claim C7, at the approximation of the squared norm built around the 2-by-1 column
  \<open>(1, 2)\<close> and recentred at the column \<open>b = (3, 4)\<close>: \<^verbatim>\<open>at_point(b)\<close> has cleared both
  caches and set the point, and the function's value at \<open>b\<close> is 25, but \<^verbatim>\<open>f(b)\<close> raises
  a \<^verbatim>\<open>ValueError\<close> from \<^verbatim>\<open>np.dot\<close> instead of returning it.
\<close>

theorem recenter_value_raises_on_columns:
  "f_at_point (at_point (init (Some stub) (A2 [[1], [2]])) (A2 [[3], [4]])) = None \<and>
   grad_at_point (at_point (init (Some stub) (A2 [[1], [2]])) (A2 [[3], [4]])) = None \<and>
   point (at_point (init (Some stub) (A2 [[1], [2]])) (A2 [[3], [4]])) = A2 [[3], [4]] \<and>
   uf stub (A2 [[3], [4]]) = 25 \<and>
   ugrad stub (A2 [[3], [4]]) = A2 [[6], [8]] \<and>
   snd (f (at_point (init (Some stub) (A2 [[1], [2]])) (A2 [[3], [4]])) (A2 [[3], [4]])) =
     Inl ValueError"
  by (simp add: init_def at_point_def reset_def BaseTaylor_reset_def call_reset_def stub_def
      f_def precompute_def BaseTaylor_precompute_def call_f_def call_grad_def rows_sub_def
      np_sub_def)


section \<open>Properties of MultiblockFirstOrderTaylorApproximation\<close>

lemma coerce_loop_length: "length (coerce_loop js ixs) = length ixs"
  by (induction js arbitrary: ixs) simp_all

lemma coerce_loop_nth:
  "distinct js \<Longrightarrow> j < length ixs \<Longrightarrow>
     coerce_loop js ixs ! j = (if j \<in> set js then PyInt (py_int (ixs ! j)) else ixs ! j)"
proof (induction js arbitrary: ixs)
  case Nil then show ?case by simp
next
  case (Cons i js)
  then show ?case by (cases "i = j") (auto simp: nth_list_update)
qed

lemma coerce_loop_map:
  "coerce_loop [0 ..< length ixs] ixs = map (\<lambda>v. PyInt (py_int v)) ixs"
  by (rule nth_equalityI) (simp_all add: coerce_loop_length coerce_loop_nth)

text \<open>
  Claim C10. \<^verbatim>\<open>MultiblockBaseTaylor.__init__\<close> copies the \<^verbatim>\<open>indices\<close> argument into
  \<^verbatim>\<open>self.indices\<close> and then overwrites the caller's list in place: the object keeps the
  entries as they were given, integers or not, and the caller's list holds \<^verbatim>\<open>int(entry)\<close>
  for each entry.
\<close>

theorem init_mutates_callers_indices:
  "indices (fst (mb_init function p ixs)) = ixs \<and>
   snd (mb_init function p ixs) = map (\<lambda>v. PyInt (py_int v)) ixs"
  by (simp add: mb_init_def Let_def coerce_loop_map mb_reset_def MultiblockBaseTaylor_reset_def)

lemma init_example:
  "mb_init (Some pair_fun) [[1, 2], [3, 4]] [PyFloat (5 / 2), PyInt 1, PyFloat (- (3 / 2))] =
     (\<lparr>mb_func = Some pair_fun, mb_point = [[1, 2], [3, 4]],
       indices = [PyFloat (5 / 2), PyInt 1, PyFloat (- (3 / 2))],
       mb_f_at_point = None, mb_grad_at_point = None\<rparr>,
      [PyInt 2, PyInt 1, PyInt (- 1)])"
  by (simp add: mb_init_def Let_def mb_reset_def MultiblockBaseTaylor_reset_def mb_at_point_def
      upt_rec)

lemma np_dot_sub_eq:
  "length g = length a \<Longrightarrow> length w = length a \<Longrightarrow>
     np_sub w a = Inr (map2 (-) w a) \<and>
     np_dot g (map2 (-) w a) = Inr (sum_list (map2 (*) g (map2 (-) w a)))"
  by (simp add: np_sub_def np_dot_def)

lemma mb_init_fields:
  "fst (mb_init function p ixs) =
     \<lparr>mb_func = function, mb_point = p, indices = ixs,
      mb_f_at_point = None, mb_grad_at_point = None\<rparr>"
  by (simp add: mb_init_def Let_def mb_reset_def MultiblockBaseTaylor_reset_def mb_at_point_def)

lemma mb_precompute_two:
  "mb_precompute \<lparr>mb_func = Some u, mb_point = a0 # a1 # rest, indices = [PyInt 0, PyInt 1],
      mb_f_at_point = None, mb_grad_at_point = None\<rparr> =
   (\<lparr>mb_func = Some u, mb_point = a0 # a1 # rest, indices = [PyInt 0, PyInt 1],
      mb_f_at_point = Some (mb_uf u [a0, a1]),
      mb_grad_at_point = Some [Some (mb_ugrad u [a0, a1] 0), Some (mb_ugrad u [a0, a1] 1)]\<rparr>, None)"
  by (simp add: mb_precompute_def MultiblockBaseTaylor_precompute_def selected_blocks_def
      py_index_int_def upt_rec)

text \<open>
  Claim C8. A \<^verbatim>\<open>MultiblockFirstOrderTaylorApproximation\<close> with indices \<^verbatim>\<open>[0, 1]\<close> built
  around a point with blocks \<open>a0\<close>, \<open>a1\<close>: on \<^verbatim>\<open>[w0, w1]\<close>, with every gradient and
  argument block of the length of its point block, \<^verbatim>\<open>f\<close> returns the function's value at
  \<^verbatim>\<open>[a0, a1]\<close> plus the two inner products of the block gradients with \<open>w0 - a0\<close> and
  \<open>w1 - a1\<close>, and \<^verbatim>\<open>grad(w, 1)\<close> returns the gradient of the second block alone.
\<close>

theorem multiblock_two_term_expansion:
  assumes "length (mb_ugrad u [a0, a1] 0) = length a0" and "length w0 = length a0"
    and "length (mb_ugrad u [a0, a1] 1) = length a1" and "length w1 = length a1"
  shows "snd (mb_f (fst (mb_init (Some u) (a0 # a1 # rest) [PyInt 0, PyInt 1])) [w0, w1]) =
           Inr (mb_uf u [a0, a1]
                + sum_list (map2 (*) (mb_ugrad u [a0, a1] 0) (map2 (-) w0 a0))
                + sum_list (map2 (*) (mb_ugrad u [a0, a1] 1) (map2 (-) w1 a1))) \<and>
         snd (mb_grad (fst (mb_init (Some u) (a0 # a1 # rest) [PyInt 0, PyInt 1])) w 1) =
           Inr (Some (mb_ugrad u [a0, a1] 1))"
proof -
  note d0 = np_dot_sub_eq [OF assms(1,2)]
  note d1 = np_dot_sub_eq [OF assms(3,4), unfolded One_nat_def]
  have "snd (mb_f (fst (mb_init (Some u) (a0 # a1 # rest) [PyInt 0, PyInt 1])) [w0, w1]) =
           Inr (mb_uf u [a0, a1]
                + sum_list (map2 (*) (mb_ugrad u [a0, a1] 0) (map2 (-) w0 a0))
                + sum_list (map2 (*) (mb_ugrad u [a0, a1] 1) (map2 (-) w1 a1)))"
    by (simp add: mb_init_fields mb_f_def mb_precompute_two upt_rec py_index_int_def d0 d1)
  moreover have "snd (mb_grad (fst (mb_init (Some u) (a0 # a1 # rest) [PyInt 0, PyInt 1])) w 1) =
           Inr (Some (mb_ugrad u [a0, a1] 1))"
    by (simp add: mb_init_fields mb_grad_def mb_precompute_two py_index_int_def)
  ultimately show ?thesis by simp
qed

theorem multiblock_two_term_expansion_witness:
  "length (mb_ugrad pair_fun [[1, 2], [3, 4]] 0) = length [1::real, 2] \<and>
   length [1::real, 1] = length [1::real, 2] \<and>
   length (mb_ugrad pair_fun [[1, 2], [3, 4]] 1) = length [3::real, 4] \<and>
   length [1::real, 1] = length [3::real, 4] \<and>
   snd (mb_f (fst (mb_init (Some pair_fun) [[1, 2], [3, 4]] [PyInt 0, PyInt 1])) [[1, 1], [1, 1]]) =
     Inr (- 1) \<and>
   snd (mb_grad (fst (mb_init (Some pair_fun) [[1, 2], [3, 4]] [PyInt 0, PyInt 1])) [] 1) =
     Inr (Some [1, 2])"
proof -
  have h: "length (mb_ugrad pair_fun [[1, 2], [3, 4]] 0) = length [1::real, 2]"
    "length [1::real, 1] = length [1::real, 2]"
    "length (mb_ugrad pair_fun [[1, 2], [3, 4]] 1) = length [3::real, 4]"
    "length [1::real, 1] = length [3::real, 4]"
    by (simp_all add: pair_fun_def)
  show ?thesis
    using h multiblock_two_term_expansion [OF h, of "[]" "[]"]
    by (simp add: pair_fun_def)
qed


section \<open>Properties of FirstOrderTaylorWrapper\<close>

lemma mb_wrap_store:
  "length (fst (mb_wrap h a p)) = length h"
  "n \<le> a \<Longrightarrow> take n (fst (mb_wrap h a p)) = take n h"
  by (auto simp: mb_wrap_def split: prod.splits option.splits)

lemma wrap_store:
  "length (fst (wrap h a p)) = length h"
  "n \<le> a \<Longrightarrow> take n (fst (wrap h a p)) = take n h"
  by (auto simp: wrap_def split: prod.splits option.splits)

lemma mb_wrap_result: "snd (mb_wrap h a p) = Inr a \<or> (\<exists>e. snd (mb_wrap h a p) = Inl e)"
  by (auto simp: mb_wrap_def split: prod.splits option.splits)

lemma wrap_result: "snd (wrap h a p) = Inr a \<or> (\<exists>e. snd (wrap h a p) = Inl e)"
  by (auto simp: wrap_def split: prod.splits option.splits)

lemma wrap_each_store:
  "list_all (\<lambda>a. n \<le> a) as \<Longrightarrow> take n (fst (wrap_each h as p)) = take n h"
proof (induction as arbitrary: h)
  case Nil then show ?case by simp
next
  case (Cons a as)
  then have a: "n \<le> a" and as: "list_all (\<lambda>a. n \<le> a) as" by simp_all
  show ?case
  proof (cases "is_BaseTaylor (h ! a)")
    case False then show ?thesis using Cons.IH [OF as] by simp
  next
    case True
    obtain h' r where w: "mb_wrap h a p = (h', r)" by (cases "mb_wrap h a p")
    have t: "take n h' = take n h" using mb_wrap_store(2) [OF a, of h p] w by simp
    show ?thesis using True w t Cons.IH [OF as, of h'] by (cases r) simp_all
  qed
qed

lemma relocated_refs:
  "list_all (\<lambda>a. (n::nat) \<le> a) (map (\<lambda>a. a + n) xs)"
  "list_all (\<lambda>a. (n::nat) \<le> a) (concat (map (map (\<lambda>a. a + n)) ys))"
  "list_all (\<lambda>a. (n::nat) \<le> a) (concat (concat (map (map (map (\<lambda>a. a + n))) zs)))"
  by (auto simp: list_all_iff)

lemma kind_relocated:
  "kind ob' = relocate_kind n k \<Longrightarrow>
     (case kind ob' of
        CombinedMultiblockFunction F D N \<Rightarrow>
          list_all (\<lambda>a. n \<le> a) (concat (concat F)) \<and> list_all (\<lambda>a. n \<le> a) (concat D) \<and>
          list_all (\<lambda>a. n \<le> a) (concat N)
      | _ \<Rightarrow> True)"
  by (cases k) (simp_all add: relocated_refs)

text \<open>
  Claim C9. \<^verbatim>\<open>__call__\<close> works on a deep copy: whatever the class of the object passed
  in and whether the call returns or raises, every object of the caller's store is
  afterwards what it was before, and a call that returns gives the reference of the copy.
\<close>

theorem call_leaves_original:
  assumes "function < length h"
  shows "take (length h) (fst (call h function p)) = h \<and>
         (snd (call h function p) = Inr (function + length h) \<or>
          (\<exists>e. snd (call h function p) = Inl e))"
proof -
  let ?n = "length h"
  let ?h = "h @ map (relocate ?n) h"
  let ?r = "function + ?n"
  have ob: "?h ! ?r = relocate ?n (h ! function)"
    using assms by (simp add: nth_append)
  have k: "kind (?h ! ?r) = relocate_kind ?n (kind (h ! function))"
    by (simp add: ob relocate_def)
  have pre: "take ?n ?h = h" by simp
  show ?thesis
  proof (cases "kind (?h ! ?r)")
    case PlainFunction
    then show ?thesis
      using wrap_store(2) [of ?n ?r ?h p] wrap_result [of ?h ?r p]
      by (simp add: call_def deepcopy_def)
  next
    case MultiblockFunction
    then show ?thesis
      using mb_wrap_store(2) [of ?n ?r ?h p] mb_wrap_result [of ?h ?r p]
      by (simp add: call_def deepcopy_def)
  next
    case (CombinedFunction F D N)
    then show ?thesis by (simp add: call_def deepcopy_def)
  next
    case (CombinedMultiblockFunction F D N)
    with kind_relocated [OF k] have refs:
      "list_all (\<lambda>a. ?n \<le> a) (concat (concat F))" "list_all (\<lambda>a. ?n \<le> a) (concat D)"
      "list_all (\<lambda>a. ?n \<le> a) (concat N)"
      by simp_all
    obtain h1 r1 where w1: "wrap_each ?h (concat (concat F)) p = (h1, r1)"
      by (cases "wrap_each ?h (concat (concat F)) p")
    obtain h2 r2 where w2: "wrap_each h1 (concat D) p = (h2, r2)"
      by (cases "wrap_each h1 (concat D) p")
    obtain h3 r3 where w3: "wrap_each h2 (concat N) p = (h3, r3)"
      by (cases "wrap_each h2 (concat N) p")
    have t1: "take ?n h1 = h" using wrap_each_store [OF refs(1), of ?h p] w1 by simp
    have t2: "take ?n h2 = h" using wrap_each_store [OF refs(2), of h1 p] w2 t1 by simp
    have t3: "take ?n h3 = h" using wrap_each_store [OF refs(3), of h2 p] w3 t2 by simp
    show ?thesis
      using CombinedMultiblockFunction w1 w2 w3 t1 t2 t3
      by (cases r1; cases r2; cases r3) (simp_all add: call_def deepcopy_def)
  qed
qed

theorem call_leaves_original_witness:
  "(0::nat) < length [nested_composite, taylor_entry] \<and>
   take 2 (fst (call [nested_composite, taylor_entry] 0 (Blocks [[5], [7]]))) =
     [nested_composite, taylor_entry] \<and>
   snd (call [nested_composite, taylor_entry] 0 (Blocks [[5], [7]])) = Inr 2 \<and>
   taylor_point (fst (call [nested_composite, taylor_entry] 0 (Blocks [[5], [7]])) ! 3) =
     Some (Blocks [[5], [7]])"
proof -
  have s: "snd (call [nested_composite, taylor_entry] 0 (Blocks [[5], [7]])) = Inr 2"
    "taylor_point (fst (call [nested_composite, taylor_entry] 0 (Blocks [[5], [7]])) ! 3) =
       Some (Blocks [[5], [7]])"
    by (simp_all add: call_def deepcopy_def nested_composite_def taylor_entry_def plain_def
        relocate_def mb_wrap_def mb_wrap_obj_def)
  show ?thesis
    using s call_leaves_original [of 0 "[nested_composite, taylor_entry]" "Blocks [[5], [7]]"]
    by (simp add: numeral_2_eq_2)
qed

lemma obj_f_original: "f_attr ob = Original \<Longrightarrow> obj_f ob x = Inr (orig_f ob x)"
  by (simp add: obj_f_def)

lemma obj_grad_original:
  "grad_attr ob = Original \<Longrightarrow> obj_grad ob x = Inr (Single (orig_grad ob x))"
  by (simp add: obj_grad_def)

lemma wrap_obj_marked:
  assumes "taylor_point ob \<noteq> None \<or> taylor_f_at_point ob \<noteq> None \<or>
           taylor_grad_f_at_point ob \<noteq> None"
    and "rebound_only_marked ob"
  shows "snd (wrap_obj ob p) = Some RuntimeError"
    and "f_attr (fst (wrap_obj ob p)) = f_attr ob"
    and "grad_attr (fst (wrap_obj ob p)) = grad_attr ob"
proof -
  consider "taylor_point ob \<noteq> None"
    | "taylor_point ob = None" "f_attr ob = Original" "grad_attr ob = Original"
    using assms(2) by (auto simp: rebound_only_marked_def)
  then have "snd (wrap_obj ob p) = Some RuntimeError \<and>
      f_attr (fst (wrap_obj ob p)) = f_attr ob \<and> grad_attr (fst (wrap_obj ob p)) = grad_attr ob"
  proof cases
    case 1 then show ?thesis by (simp add: wrap_obj_def)
  next
    case 2
    then have m: "taylor_f_at_point ob \<noteq> None \<or> taylor_grad_f_at_point ob \<noteq> None"
      using assms(1) by simp
    show ?thesis using 2 m
      by (auto simp: wrap_obj_def Let_def obj_f_def obj_grad_def)
  qed
  then show "snd (wrap_obj ob p) = Some RuntimeError"
    and "f_attr (fst (wrap_obj ob p)) = f_attr ob"
    and "grad_attr (fst (wrap_obj ob p)) = grad_attr ob" by simp_all
qed

lemma mb_wrap_obj_marked:
  assumes "taylor_point ob \<noteq> None \<or> taylor_f_at_point ob \<noteq> None \<or>
           taylor_grad_f_at_point ob \<noteq> None"
  shows "snd (mb_wrap_obj ob p) = Some RuntimeError"
    and "f_attr (fst (mb_wrap_obj ob p)) = f_attr ob"
    and "grad_attr (fst (mb_wrap_obj ob p)) = grad_attr ob"
  using assms by (auto simp: mb_wrap_obj_def Let_def)

lemma wrap_obj_invariant:
  "rebound_only_marked ob \<Longrightarrow> rebound_only_marked (fst (wrap_obj ob p))"
  by (auto simp: rebound_only_marked_def wrap_obj_def Let_def split: sum.splits if_splits)

lemma mb_wrap_obj_invariant:
  "rebound_only_marked ob \<Longrightarrow> rebound_only_marked (fst (mb_wrap_obj ob p))"
  by (auto simp: rebound_only_marked_def mb_wrap_obj_def Let_def split: sum.splits if_splits)

lemma wrap_obj_fresh:
  assumes "taylor_point ob = None" "taylor_f_at_point ob = None"
    "taylor_grad_f_at_point ob = None" "f_attr ob = Original" "grad_attr ob = Original"
    "\<not> is_CombinedFunction ob"
  shows "wrap_obj ob p =
           (ob\<lparr>taylor_point := Some p, taylor_f_at_point := Some (orig_f ob p),
               taylor_grad_f_at_point := Some (Single (orig_grad ob p)),
               f_attr := WrapNew, grad_attr := WrapNew\<rparr>, None)"
  using assms by (simp add: wrap_obj_def Let_def obj_f_def obj_grad_def)

lemma wrap_obj_fresh_combined:
  assumes "taylor_point ob = None" "taylor_f_at_point ob = None"
    "taylor_grad_f_at_point ob = None" "is_CombinedFunction ob"
  shows "wrap_obj ob p =
           (ob\<lparr>taylor_point := Some p, taylor_f_at_point := Some (smooth_f ob p),
               taylor_grad_f_at_point := Some (Single (smooth_grad_f ob p)),
               f_attr := WrapNew, grad_attr := WrapNew\<rparr>, None)"
  using assms by (simp add: wrap_obj_def Let_def)

text \<open>
  Claim C4. On an object that carries any of the three marker attributes, \<^verbatim>\<open>_wrap\<close> and
  \<^verbatim>\<open>_mb_wrap\<close> both raise the double-wrap \<^verbatim>\<open>RuntimeError\<close>, and neither rebinds \<^verbatim>\<open>f\<close>
  or \<^verbatim>\<open>grad\<close>. The object is one that the routines can meet: its methods are rebound
  only if it carries all three markers.
\<close>

theorem double_wrap_raises:
  assumes "taylor_point (h ! fun) \<noteq> None \<or> taylor_f_at_point (h ! fun) \<noteq> None \<or>
           taylor_grad_f_at_point (h ! fun) \<noteq> None"
    and "rebound_only_marked (h ! fun)"
  shows "snd (wrap h fun p) = Inl RuntimeError \<and> snd (mb_wrap h fun p) = Inl RuntimeError \<and>
         f_attr (fst (wrap_obj (h ! fun) p)) = f_attr (h ! fun) \<and>
         grad_attr (fst (wrap_obj (h ! fun) p)) = grad_attr (h ! fun) \<and>
         f_attr (fst (mb_wrap_obj (h ! fun) p)) = f_attr (h ! fun) \<and>
         grad_attr (fst (mb_wrap_obj (h ! fun) p)) = grad_attr (h ! fun)"
proof -
  have "snd (wrap h fun p) = Inl RuntimeError"
    using wrap_obj_marked(1) [OF assms, of p]
    by (cases "wrap_obj (h ! fun) p") (simp add: wrap_def)
  moreover have "snd (mb_wrap h fun p) = Inl RuntimeError"
    using mb_wrap_obj_marked(1) [OF assms(1), of p]
    by (cases "mb_wrap_obj (h ! fun) p") (simp add: mb_wrap_def)
  ultimately show ?thesis
    using wrap_obj_marked(2,3) [OF assms, of p] mb_wrap_obj_marked(2,3) [OF assms(1), of p]
    by simp
qed

lemma once_wrapped_eq:
  "once_wrapped = [plain, plain\<lparr>taylor_point := Some (Arr [1, 2]), taylor_f_at_point := Some 1,
       taylor_grad_f_at_point := Some (Single []), f_attr := WrapNew, grad_attr := WrapNew\<rparr>]"
  by (simp add: once_wrapped_def call_def deepcopy_def relocate_def plain_def wrap_def
      wrap_obj_def obj_f_def obj_grad_def)

theorem double_wrap_raises_witness:
  "taylor_point (once_wrapped ! 1) \<noteq> None \<and> rebound_only_marked (once_wrapped ! 1) \<and>
   snd (wrap once_wrapped 1 (Arr [3, 4])) = Inl RuntimeError \<and>
   snd (mb_wrap once_wrapped 1 (Arr [3, 4])) = Inl RuntimeError"
proof -
  have a: "taylor_point (once_wrapped ! 1) \<noteq> None \<or> taylor_f_at_point (once_wrapped ! 1) \<noteq> None \<or>
           taylor_grad_f_at_point (once_wrapped ! 1) \<noteq> None"
    by (simp add: once_wrapped_eq)
  have b: "rebound_only_marked (once_wrapped ! 1)"
    by (simp add: once_wrapped_eq rebound_only_marked_def)
  have c: "taylor_point (once_wrapped ! 1) \<noteq> None" by (simp add: once_wrapped_eq)
  show ?thesis using b c double_wrap_raises [OF a b, of "Arr [3, 4]"] by simp
qed

text \<open>
  The same through \<^verbatim>\<open>__call__\<close>: the copy carries the markers of the original, so wrapping
  the result of a previous wrap raises the double-wrap error.
\<close>

lemma call_marked:
  assumes "function < length h"
    and "kind (h ! function) = PlainFunction \<or> kind (h ! function) = MultiblockFunction"
    and "taylor_point (h ! function) \<noteq> None \<or> taylor_f_at_point (h ! function) \<noteq> None \<or>
         taylor_grad_f_at_point (h ! function) \<noteq> None"
    and "rebound_only_marked (h ! function)"
  shows "snd (call h function p) = Inl RuntimeError"
proof -
  let ?n = "length h"
  let ?h = "h @ map (relocate ?n) h"
  let ?r = "function + ?n"
  have ob: "?h ! ?r = relocate ?n (h ! function)"
    using assms(1) by (simp add: nth_append)
  have m: "taylor_point (?h ! ?r) \<noteq> None \<or> taylor_f_at_point (?h ! ?r) \<noteq> None \<or>
           taylor_grad_f_at_point (?h ! ?r) \<noteq> None"
    using assms(3) by (simp add: ob relocate_def)
  have i: "rebound_only_marked (?h ! ?r)"
    using assms(4) by (simp add: ob relocate_def rebound_only_marked_def)
  have w: "snd (wrap ?h ?r p) = Inl RuntimeError"
    using wrap_obj_marked(1) [OF m i, of p]
    by (cases "wrap_obj (?h ! ?r) p") (simp add: wrap_def)
  have mw: "snd (mb_wrap ?h ?r p) = Inl RuntimeError"
    using mb_wrap_obj_marked(1) [OF m, of p]
    by (cases "mb_wrap_obj (?h ! ?r) p") (simp add: mb_wrap_def)
  from assms(2) show ?thesis
  proof
    assume "kind (h ! function) = PlainFunction"
    then have "kind (?h ! ?r) = PlainFunction" by (simp add: ob relocate_def)
    then show ?thesis using w by (simp add: call_def deepcopy_def)
  next
    assume "kind (h ! function) = MultiblockFunction"
    then have "kind (?h ! ?r) = MultiblockFunction" by (simp add: ob relocate_def)
    then show ?thesis using mw by (simp add: call_def deepcopy_def)
  qed
qed

lemma call_on_wrapped_result: "snd (call once_wrapped 1 (Arr [3, 4])) = Inl RuntimeError"
  using call_marked [of 1 once_wrapped "Arr [3, 4]"]
  by (simp add: once_wrapped_eq rebound_only_marked_def plain_def)

lemma init_fields:
  "func (init (Some u) a) = Some (call_reset (call_reset u))"
  "point (init (Some u) a) = a"
  "f_at_point (init (Some u) a) = None"
  "grad_at_point (init (Some u) a) = None"
  by (simp_all add: init_def at_point_def reset_def BaseTaylor_reset_def)

lemma run_func:
  assumes "func self = Some u"
  shows "\<exists>u'. func (run cs self) = Some u' \<and> uf u' = uf u \<and> ugrad u' = ugrad u"
  using assms
proof (induction cs arbitrary: self u)
  case Nil then show ?case by simp
next
  case (Cons c cs)
  from precompute_cases [of self "fst (precompute self)" "snd (precompute self)"] Cons.prems
  obtain u' where u': "func (fst (precompute self)) = Some u'" "uf u' = uf u" "ugrad u' = ugrad u"
    by auto
  from Cons.IH [OF u'(1)] show ?case unfolding run_step by (simp add: u')
qed

lemma approximation_grad_constant:
  "snd (grad (run cs (init (Some u) a)) x) = Inr (ugrad u a)"
proof -
  let ?s = "init (Some u) a"
  let ?u = "call_reset (call_reset u)"
  have u: "uf ?u = uf u" "ugrad ?u = ugrad u" by (simp_all add: call_reset_def)
  have fn: "func ?s = Some ?u" by (rule init_fields)
  have c: "f_at_point ?s = None \<or> f_at_point ?s = Some (uf ?u (point ?s))"
    "grad_at_point ?s = None \<or> grad_at_point ?s = Some (ugrad ?u (point ?s))"
    by (simp_all add: init_fields)
  from run_func [OF fn, of cs] obtain u' where
    u': "func (run cs ?s) = Some u'" "uf u' = uf u" "ugrad u' = ugrad u"
    by (auto simp: u)
  from run_inv [OF fn c, of cs] have
    r: "f_at_point (run cs ?s) = None \<or> f_at_point (run cs ?s) = Some (uf u' (point (run cs ?s)))"
      "grad_at_point (run cs ?s) = None \<or>
       grad_at_point (run cs ?s) = Some (ugrad u' (point (run cs ?s)))"
      "point (run cs ?s) = a"
    by (simp_all add: u u' init_fields)
  from grad_value [OF u'(1) r(1,2), of x] show ?thesis by (simp add: u' r(3))
qed

lemma approximation_value_at_center:
  assumes "ugrad u (A1 a) = A1 g" and "length g = length a"
  shows "snd (f (init (Some u) (A1 a)) (A1 a)) = Inr (Number (uf u (A1 a)))"
proof -
  let ?s = "init (Some u) (A1 a)"
  let ?u = "call_reset (call_reset u)"
  have u: "uf ?u = uf u" "ugrad ?u = ugrad u" by (simp_all add: call_reset_def)
  have fn: "func ?s = Some ?u" by (rule init_fields)
  have c: "f_at_point ?s = None \<or> f_at_point ?s = Some (uf ?u (point ?s))"
    "grad_at_point ?s = None \<or> grad_at_point ?s = Some (ugrad ?u (point ?s))"
    by (simp_all add: init_fields)
  show ?thesis
    using f_value [OF fn c, of "A1 a"] unfolding u init_fields(2) assms(1)
    using expansion_at_center [OF assms(2), of "uf u (A1 a)"] by simp
qed

lemma wrapped_new_grad:
  assumes "taylor_point ob = None" "taylor_f_at_point ob = None"
    "taylor_grad_f_at_point ob = None" "f_attr ob = Original" "grad_attr ob = Original"
    "\<not> is_CombinedFunction ob"
  shows "obj_grad (fst (wrap_obj ob a)) x = Inr (Single (orig_grad ob a))"
  using assms(6) unfolding wrap_obj_fresh [OF assms]
  by (simp add: obj_grad_def new_grad_def)

lemma wrapped_value_at_center:
  assumes "taylor_point ob = None" "taylor_f_at_point ob = None"
    "taylor_grad_f_at_point ob = None" "f_attr ob = Original" "grad_attr ob = Original"
    "\<not> is_CombinedFunction ob" "length (orig_grad ob (Arr a)) = length a"
  shows "obj_f (fst (wrap_obj ob (Arr a))) (Arr a) = Inr (orig_f ob (Arr a))"
  using assms(6) unfolding wrap_obj_fresh [OF assms(1-6)]
  by (simp add: obj_f_def new_f_def np_sub_self np_dot_zero [OF assms(7)])

lemma wrapped_combined_value:
  assumes "taylor_point ob = None" "taylor_f_at_point ob = None"
    "taylor_grad_f_at_point ob = None" "is_CombinedFunction ob"
    "length (smooth_grad_f ob (Arr a)) = length a" "length x = length a"
  shows "obj_f (fst (wrap_obj ob (Arr a))) (Arr x) =
           Inr (smooth_f ob (Arr a)
                + sum_list (map2 (*) (smooth_grad_f ob (Arr a)) (map2 (-) x a))
                + non_f ob (Arr x))"
  using assms(4) unfolding wrap_obj_fresh_combined [OF assms(1-4)]
  by (simp add: obj_f_def new_f_def np_sub_def np_dot_def assms(5,6))

lemma call_CombinedFunction:
  assumes "function < length h" and "kind (h ! function) = CombinedFunction F D N"
  shows "call h function p = (h @ map (relocate (length h)) h, Inl TypeError)"
  using assms by (simp add: call_def deepcopy_def nth_append relocate_def)

text \<open>
  Claim C5. The gradient of a first-order approximation around \<open>a\<close> is the gradient of
  the function at \<open>a\<close>, whatever the argument: for \<^verbatim>\<open>FirstOrderTaylorApproximation.grad\<close>
  after any sequence of earlier calls, and for the \<^verbatim>\<open>new_grad\<close> that \<^verbatim>\<open>_wrap\<close> binds on
  a function that is not a \<^verbatim>\<open>CombinedFunction\<close> and has not been wrapped before.
\<close>

theorem gradient_constant:
  assumes "taylor_point ob = None" and "taylor_f_at_point ob = None"
    and "taylor_grad_f_at_point ob = None" and "f_attr ob = Original"
    and "grad_attr ob = Original" and "\<not> is_CombinedFunction ob"
  shows "snd (grad (run cs (init (Some u) a)) x) = Inr (ugrad u a) \<and>
         snd (wrap_obj ob p) = None \<and>
         obj_grad (fst (wrap_obj ob p)) y = Inr (Single (orig_grad ob p))"
  using approximation_grad_constant [of cs u a x] wrapped_new_grad [OF assms, of p y]
    wrap_obj_fresh [OF assms, of p]
  by simp

theorem gradient_constant_witness:
  "taylor_point smooth_loss = None \<and> taylor_f_at_point smooth_loss = None \<and>
   taylor_grad_f_at_point smooth_loss = None \<and> f_attr smooth_loss = Original \<and>
   grad_attr smooth_loss = Original \<and> \<not> is_CombinedFunction smooth_loss \<and>
   snd (grad (run [Value (A1 [0, 0])] (init (Some stub) (A1 [1, 2]))) (A1 [7, 7])) =
     Inr (A1 [2, 4]) \<and>
   obj_grad (fst (wrap_obj smooth_loss (Arr [1, 2]))) (Arr [7, 7]) = Inr (Single [2, 4])"
proof -
  have h: "taylor_point smooth_loss = None" "taylor_f_at_point smooth_loss = None"
    "taylor_grad_f_at_point smooth_loss = None" "f_attr smooth_loss = Original"
    "grad_attr smooth_loss = Original" "\<not> is_CombinedFunction smooth_loss"
    by (simp_all add: smooth_loss_def plain_def)
  show ?thesis
    using h gradient_constant
      [OF h, of "[Value (A1 [0, 0])]" stub "A1 [1, 2]" "A1 [7, 7]" "Arr [1, 2]" "Arr [7, 7]"]
    by (simp add: stub_def smooth_loss_def sq_grad_def)
qed

text \<open>
  Claim C1, at a multiblock function of constant value 1 wrapped by \<^verbatim>\<open>__call__\<close> at the
  two-block point \<^verbatim>\<open>[[5], [7]]\<close>: the \<^verbatim>\<open>new_f\<close> of \<^verbatim>\<open>_mb_wrap\<close> adds the cached value
  once per block, and the wrapped function's value at the very point of the wrap is 2,
  where the function's own value is 1.
\<close>

theorem mb_wrapped_value_at_center:
  "snd (call [two_block] 0 (Blocks [[5], [7]])) = Inr 1 \<and>
   obj_f (fst (call [two_block] 0 (Blocks [[5], [7]])) ! 1) (Blocks [[5], [7]]) = Inr 2 \<and>
   obj_f two_block (Blocks [[5], [7]]) = Inr 1 \<and>
   smooth_f two_block (Blocks [[5], [7]]) = 1"
  by (simp add: call_def deepcopy_def relocate_def two_block_def plain_def mb_wrap_def
      mb_wrap_obj_def obj_f_def mb_new_f_def mb_term_def py_index_int_def homogeneous_def
      np_sub_def np_dot_def upt_rec)

text \<open>
  Claim C2, at a \<^verbatim>\<open>CombinedFunction\<close> of one smooth loss and one penalty:
  \<^verbatim>\<open>__call__\<close> raises a \<^verbatim>\<open>TypeError\<close> and returns no wrapped composite.
\<close>

theorem composite_wrap_raises:
  "snd (call [composite, smooth_loss, penalty] 0 (Arr [1, 2])) = Inl TypeError"
  using call_CombinedFunction [of 0 "[composite, smooth_loss, penalty]" "[1]" "[2]" "[]" "Arr [1, 2]"]
  by (simp add: composite_def)

text \<open>
  Claim C3, at a \<^verbatim>\<open>CombinedFunction\<close> whose list \<^verbatim>\<open>_f\<close> holds two \<^verbatim>\<open>BaseTaylor\<close>
  entries: \<^verbatim>\<open>__call__\<close> raises a \<^verbatim>\<open>TypeError\<close>; no entry, original or copy, has been
  wrapped, and no \<^verbatim>\<open>at_point\<close> has been bound.
\<close>

theorem composite_entries_not_wrapped:
  "snd (call [two_losses, taylor_entry, taylor_entry] 0 (Arr [1, 2])) = Inl TypeError \<and>
   map taylor_point (fst (call [two_losses, taylor_entry, taylor_entry] 0 (Arr [1, 2]))) =
     [None, None, None, None, None, None] \<and>
   map at_point_attr (fst (call [two_losses, taylor_entry, taylor_entry] 0 (Arr [1, 2]))) =
     [False, False, False, False, False, False]"
  using call_CombinedFunction [of 0 "[two_losses, taylor_entry, taylor_entry]" "[1, 2]" "[]" "[]" "Arr [1, 2]"]
  by (simp add: two_losses_def taylor_entry_def plain_def relocate_def)

end
